theory Spec2Isabelle
  imports Complex_Main
begin

section \<open>Python numerics\<close>

text \<open>
  A Python float is a binary64 number. The geometric analyses below are read on exact reals.
  The scores and levels that the program rounds to a decimal or to an integer depend on the
  binary representation of their intermediate results, so the posture score, the
  waist-hip ratio with the visceral fat level, and the progress score are computed here in
  binary64 arithmetic: every operation rounds its exact result to the nearest binary64
  number, ties to even. Overflow to infinity is not modelled; none of these computations
  reaches it on finite inputs that matter to a result.
\<close>

definition round_half_even :: "real \<Rightarrow> int" where
  \<comment> \<open>\<^verbatim>\<open>round(x)\<close> with one argument: the nearest integer, ties to even.\<close>
  "round_half_even v =
     (let f = \<lfloor>v\<rfloor>; d = v - of_int f
      in if d < 1 / 2 then f
         else if 1 / 2 < d then f + 1
         else if even f then f else f + 1)"

definition py_round :: "real \<Rightarrow> nat \<Rightarrow> real" where
  \<comment> \<open>\<^verbatim>\<open>round(x, ndigits)\<close> for a non-negative number of digits.\<close>
  "py_round v ndigits = of_int (round_half_even (v * 10 ^ ndigits)) / 10 ^ ndigits"

definition binade :: "real \<Rightarrow> int" where
  \<comment> \<open>The binary exponent of a number, not below the exponent of the subnormal range.\<close>
  "binade q = max \<lfloor>log 2 \<bar>q\<bar>\<rfloor> (- 1022)"

definition ulp :: "real \<Rightarrow> real" where
  \<comment> \<open>The spacing of binary64 numbers around \<open>q\<close>: 53 significant bits.\<close>
  "ulp q = 2 powr (of_int (binade q) - 52)"

definition fl :: "real \<Rightarrow> real" where
  \<comment> \<open>The binary64 number nearest to \<open>q\<close>, ties to the even significand.\<close>
  "fl q = of_int (round_half_even (q / ulp q)) * ulp q"

definition fadd :: "real \<Rightarrow> real \<Rightarrow> real" where
  "fadd a b = fl (a + b)"

definition fsub :: "real \<Rightarrow> real \<Rightarrow> real" where
  "fsub a b = fl (a - b)"

definition fmul :: "real \<Rightarrow> real \<Rightarrow> real" where
  "fmul a b = fl (a * b)"

definition fdiv :: "real \<Rightarrow> real \<Rightarrow> real" where
  "fdiv a b = fl (a / b)"

definition fround :: "real \<Rightarrow> nat \<Rightarrow> real" where
  \<comment> \<open>\<^verbatim>\<open>round(x, ndigits)\<close> on a float: the exact value of \<open>x\<close> is rounded to the decimal,
      ties to even, and the decimal is converted to the nearest float.\<close>
  "fround v ndigits = fl (py_round v ndigits)"

definition truthy :: "real option \<Rightarrow> bool" where
  \<comment> \<open>Truth value of a nullable float: \<^verbatim>\<open>None\<close> and \<^verbatim>\<open>0.0\<close> are false.\<close>
  "truthy v = (case v of None \<Rightarrow> False | Some r \<Rightarrow> r \<noteq> 0)"

definition atan2 :: "real \<Rightarrow> real \<Rightarrow> real" where
  \<comment> \<open>\<^verbatim>\<open>math.atan2(y, x)\<close>, the angle of the point \<open>(x, y)\<close> in \<open>(-pi, pi]\<close>.\<close>
  "atan2 b a =
     (if 0 < a then arctan (b / a)
      else if a < 0 then (if 0 \<le> b then arctan (b / a) + pi else arctan (b / a) - pi)
      else if 0 < b then pi / 2
      else if b < 0 then - pi / 2
      else 0)"

definition degrees :: "real \<Rightarrow> real" where
  \<comment> \<open>\<^verbatim>\<open>math.degrees\<close>\<close>
  "degrees r = r * 180 / pi"

fun string_of_nat :: "nat \<Rightarrow> string" where
  "string_of_nat n =
     (if n < 10 then [char_of (48 + n)]
      else string_of_nat (n div 10) @ [char_of (48 + n mod 10)])"

definition format_1f :: "real \<Rightarrow> string" where
  \<comment> \<open>The format specification \<^verbatim>\<open>:.1f\<close>: sign, integer part, point, one decimal.\<close>
  "format_1f v =
     (let n = nat (round_half_even (\<bar>v\<bar> * 10))
      in (if v < 0 then ''-'' else '''') @ string_of_nat (n div 10) @ ''.'' @ string_of_nat (n mod 10))"

definition degree_sign :: string where
  \<comment> \<open>The character U+00B0 in UTF-8.\<close>
  "degree_sign = [char_of (194::nat), char_of (176::nat)]"

section \<open>Profile and measurements (accounts/models.py)\<close>

record UserProfile =
  age :: "nat option"
  gender :: "string option"
  height :: "real option"
  current_weight :: "real option"

definition bmi :: "UserProfile \<Rightarrow> real" where
  "bmi p =
     (if \<not> truthy (height p) \<or> \<not> truthy (current_weight p) then 0
      else let height_m = the (height p) / 100
           in py_round (the (current_weight p) / height_m ^ 2) 1)"

record BodyMeasurements =
  waist :: "real option"
  hips :: "real option"

definition whr :: "BodyMeasurements \<Rightarrow> real option" where
  "whr m =
     (if truthy (waist m) \<and> truthy (hips m)
      then Some (fround (fdiv (the (waist m)) (the (hips m))) 3)
      else None)"

section \<open>Body composition (services.py, BodyCompositionService)\<close>

text \<open>
  The result dictionaries of the services are records of optional fields: a key that the
  source does not set is \<open>None\<close>.
\<close>

record body_analysis =
  estimated_body_fat :: "real option"
  estimated_muscle_mass :: "real option"
  visceral_fat_level :: "int option"
  body_shape_type :: "string option"
  photo_analysis_completed :: "bool option"
  photo_quality_score :: "real option"

definition empty_body_analysis :: body_analysis where
  "empty_body_analysis =
     \<lparr>estimated_body_fat = None, estimated_muscle_mass = None, visceral_fat_level = None,
      body_shape_type = None, photo_analysis_completed = None, photo_quality_score = None\<rparr>"

definition analyze_measurements :: "BodyMeasurements \<Rightarrow> UserProfile option \<Rightarrow> (int \<times> string) option" where
  \<comment> \<open>\<^verbatim>\<open>_analyze_measurements\<close>: \<open>None\<close> is the empty dictionary, otherwise the visceral
      fat level and the body shape type, which the source sets together. The literal
      \<^verbatim>\<open>0.85\<close> is the float \<open>fl 0.85\<close>; the other literals are exact.\<close>
  "analyze_measurements measurements user_profile =
     (if truthy (whr measurements) then
        (let w = the (whr measurements);
             visceral_fat =
               (if (case user_profile of None \<Rightarrow> False | Some p \<Rightarrow> gender p = Some ''M'')
                then (if w > 1.0 then min 30 (fadd 15 (fmul (fsub w 1.0) 20))
                      else max 1 (fmul w 12))
                else (if w > fl 0.85 then min 30 (fadd 10 (fmul (fsub w (fl 0.85)) 25))
                      else max 1 (fmul w 10)));
             shape = (if w > fl 0.85 then ''apple'' else if w < 0.75 then ''pear''
                      else ''rectangle'')
         in Some (round_half_even visceral_fat, shape))
      else None)"

definition analyze_body_photo :: "string \<Rightarrow> body_analysis \<Rightarrow> body_analysis" where
  "analyze_body_photo photo_path analysis =
     analysis\<lparr>photo_analysis_completed := Some True, photo_quality_score := Some 8.5\<rparr>"

definition estimate_body_composition ::
  "UserProfile option \<Rightarrow> BodyMeasurements option \<Rightarrow> string option \<Rightarrow> body_analysis" where
  "estimate_body_composition user_profile measurements photo_path =
     (let analysis = empty_body_analysis;
          analysis =
            (case user_profile of
               None \<Rightarrow> analysis
             | Some p \<Rightarrow>
                 (let b = bmi p;
                      a = (case age p of None \<Rightarrow> 25 | Some n \<Rightarrow> if n = 0 then 25 else n);
                      body_fat =
                        (if gender p = Some ''M'' then (1.20 * b) + (0.23 * real a) - 16.2
                         else (1.20 * b) + (0.23 * real a) - 5.4);
                      fat = max 5 (min 50 (py_round body_fat 1));
                      muscle_mass = 100 - fat
                  in analysis\<lparr>estimated_body_fat := Some fat,
                       estimated_muscle_mass := Some (py_round (muscle_mass * 0.45) 1)\<rparr>));
          analysis =
            (case measurements of
               None \<Rightarrow> analysis
             | Some m \<Rightarrow>
                 (case analyze_measurements m user_profile of
                    None \<Rightarrow> analysis
                  | Some (v, s) \<Rightarrow> analysis\<lparr>visceral_fat_level := Some v, body_shape_type := Some s\<rparr>));
          analysis =
            (case photo_path of
               None \<Rightarrow> analysis
             | Some path \<Rightarrow> if path = [] then analysis else analyze_body_photo path analysis)
      in analysis)"

definition visceral_fat_piecewise :: "bool \<Rightarrow> real \<Rightarrow> real" where
  \<comment> \<open>The specification's piecewise-linear function of WHR: breakpoint 1.0 for a male-coded
      profile, 0.85 otherwise, evaluated in the program's arithmetic.\<close>
  "visceral_fat_piecewise male w =
     (if male then (if w > 1.0 then fadd 15 (fmul (fsub w 1.0) 20) else fmul w 12)
      else (if w > fl 0.85 then fadd 10 (fmul (fsub w (fl 0.85)) 25) else fmul w 10))"

definition visceral_fat_spec :: "bool \<Rightarrow> real \<Rightarrow> int" where
  \<comment> \<open>The specification's visceral fat level: the piecewise-linear value clamped to
      \<open>[1, 30]\<close>, then rounded to an integer.\<close>
  "visceral_fat_spec male w = round_half_even (max 1 (min 30 (visceral_fat_piecewise male w)))"

definition body_shape_spec :: "real \<Rightarrow> string" where
  "body_shape_spec w =
     (if w > fl 0.85 then ''apple'' else if w < 0.75 then ''pear'' else ''rectangle'')"

section \<open>Progress score (services.py, ProgressTrackingService; views.py, ProgressTrackingView)\<close>

record posture_improvement_dict =
  posture_score_change :: "real option"
  shoulder_improvement :: "real option"

record progress =
  weight_change :: "real option"
  posture_improvement :: "posture_improvement_dict option"

definition calculate_overall_progress_score :: "progress \<Rightarrow> real" where
  \<comment> \<open>\<^verbatim>\<open>ProgressTrackingService._calculate_overall_progress_score\<close>\<close>
  "calculate_overall_progress_score p =
     (let score = 5.0;
          score =
            (case weight_change p of
               None \<Rightarrow> score
             | Some wc \<Rightarrow> if wc < 0 then fadd score (min (fmul \<bar>wc\<bar> 0.5) 2.5) else score);
          score =
            (case posture_improvement p of
               None \<Rightarrow> score
             | Some pim \<Rightarrow>
                 (let posture_change = (case posture_score_change pim of None \<Rightarrow> 0 | Some c \<Rightarrow> c)
                  in fadd score (min (fmul posture_change 0.5) 2.5)))
      in min 10.0 (max 1.0 (fround score 1)))"


definition snapshot_progress :: "real \<Rightarrow> real \<Rightarrow> progress" where
  \<comment> \<open>The progress dictionary of a period whose two bounding snapshots both exist.\<close>
  "snapshot_progress weight_delta posture_delta =
     \<lparr>weight_change = Some weight_delta,
      posture_improvement = Some \<lparr>posture_score_change = Some posture_delta, shoulder_improvement = None\<rparr>\<rparr>"


section \<open>Landmarks and keypoints (services.py, PostureAnalysisService)\<close>

text \<open>
  A pose landmark as the pose estimator returns it, and a keypoint dictionary entry.
  The source's coordinate keys \<^verbatim>\<open>x\<close>, \<^verbatim>\<open>y\<close>, \<^verbatim>\<open>z\<close> carry a prefix here.
\<close>

record landmark =
  lm_x :: real
  lm_y :: real
  lm_z :: real
  lm_visibility :: real

record keypoint =
  kp_x :: real
  kp_y :: real
  kp_z :: real
  visibility :: real
  x_norm :: real
  y_norm :: real

type_synonym keypoint_dict = "string \<rightharpoonup> keypoint"

definition key_points :: "(string \<times> nat) list" where
  "key_points =
     [(''nose'', 0), (''left_eye'', 1), (''right_eye'', 2), (''left_ear'', 7), (''right_ear'', 8),
      (''left_shoulder'', 11), (''right_shoulder'', 12), (''left_elbow'', 13),
      (''right_elbow'', 14), (''left_wrist'', 15), (''right_wrist'', 16), (''left_hip'', 23),
      (''right_hip'', 24), (''left_knee'', 25), (''right_knee'', 26), (''left_ankle'', 27),
      (''right_ankle'', 28), (''left_heel'', 29), (''right_heel'', 30), (''left_foot'', 31),
      (''right_foot'', 32)]"

definition extract_keypoints :: "landmark list \<Rightarrow> nat \<Rightarrow> nat \<Rightarrow> keypoint_dict" where
  "extract_keypoints landmarks img_width img_height =
     fold (\<lambda>(name, idx) kps.
             if idx < length landmarks
             then (let l = landmarks ! idx
                   in kps(name \<mapsto>
                        \<lparr>kp_x = lm_x l * real img_width, kp_y = lm_y l * real img_height, kp_z = lm_z l,
                         visibility = lm_visibility l, x_norm = lm_x l, y_norm = lm_y l\<rparr>))
             else kps)
          key_points Map.empty"

section \<open>Posture metrics\<close>

record analysis =
  shoulder_slope_degrees :: "real option"
  shoulder_height_difference :: "real option"
  has_shoulder_imbalance :: "bool option"
  shoulder_confidence :: "real option"
  head_tilt_degrees :: "real option"
  head_offset_x :: "real option"
  head_offset_y :: "real option"
  forward_head_posture :: "bool option"
  head_confidence :: "real option"
  hip_slope_degrees :: "real option"
  hip_height_difference :: "real option"
  has_hip_imbalance :: "bool option"
  hip_confidence :: "real option"
  knee_valgus_angle :: "real option"
  has_knee_valgus :: "bool option"
  knee_distance :: "real option"
  ankle_distance :: "real option"
  knee_confidence :: "real option"
  posture_score :: "real option"
  recommendations :: "string list option"
  keypoints :: "keypoint_dict option"
  image_dimensions :: "(nat \<times> nat) option"
  confidence :: "real option"

definition empty_analysis :: analysis where
  "empty_analysis =
     \<lparr>shoulder_slope_degrees = None, shoulder_height_difference = None,
      has_shoulder_imbalance = None, shoulder_confidence = None, head_tilt_degrees = None,
      head_offset_x = None, head_offset_y = None, forward_head_posture = None,
      head_confidence = None, hip_slope_degrees = None, hip_height_difference = None,
      has_hip_imbalance = None, hip_confidence = None, knee_valgus_angle = None,
      has_knee_valgus = None, knee_distance = None, ankle_distance = None,
      knee_confidence = None, posture_score = None, recommendations = None, keypoints = None,
      image_dimensions = None, confidence = None\<rparr>"

definition orelse :: "'a option \<Rightarrow> 'a option \<Rightarrow> 'a option" where
  "orelse new old = (case new of None \<Rightarrow> old | Some v \<Rightarrow> Some v)"

definition update_dict :: "analysis \<Rightarrow> analysis \<Rightarrow> analysis" where
  \<comment> \<open>\<^verbatim>\<open>a.update(b)\<close>: every key of \<open>b\<close> replaces the key of \<open>a\<close>.\<close>
  "update_dict a b =
     \<lparr>shoulder_slope_degrees = orelse (shoulder_slope_degrees b) (shoulder_slope_degrees a),
      shoulder_height_difference =
        orelse (shoulder_height_difference b) (shoulder_height_difference a),
      has_shoulder_imbalance = orelse (has_shoulder_imbalance b) (has_shoulder_imbalance a),
      shoulder_confidence = orelse (shoulder_confidence b) (shoulder_confidence a),
      head_tilt_degrees = orelse (head_tilt_degrees b) (head_tilt_degrees a),
      head_offset_x = orelse (head_offset_x b) (head_offset_x a),
      head_offset_y = orelse (head_offset_y b) (head_offset_y a),
      forward_head_posture = orelse (forward_head_posture b) (forward_head_posture a),
      head_confidence = orelse (head_confidence b) (head_confidence a),
      hip_slope_degrees = orelse (hip_slope_degrees b) (hip_slope_degrees a),
      hip_height_difference = orelse (hip_height_difference b) (hip_height_difference a),
      has_hip_imbalance = orelse (has_hip_imbalance b) (has_hip_imbalance a),
      hip_confidence = orelse (hip_confidence b) (hip_confidence a),
      knee_valgus_angle = orelse (knee_valgus_angle b) (knee_valgus_angle a),
      has_knee_valgus = orelse (has_knee_valgus b) (has_knee_valgus a),
      knee_distance = orelse (knee_distance b) (knee_distance a),
      ankle_distance = orelse (ankle_distance b) (ankle_distance a),
      knee_confidence = orelse (knee_confidence b) (knee_confidence a),
      posture_score = orelse (posture_score b) (posture_score a),
      recommendations = orelse (recommendations b) (recommendations a),
      keypoints = orelse (keypoints b) (keypoints a),
      image_dimensions = orelse (image_dimensions b) (image_dimensions a),
      confidence = orelse (confidence b) (confidence a)\<rparr>"

definition slope_degrees :: "real \<Rightarrow> real \<Rightarrow> real" where
  \<comment> \<open>The guarded slope of \<^verbatim>\<open>_analyze_shoulders\<close> and \<^verbatim>\<open>_analyze_hips\<close>, written
      twice in the source with the same text.\<close>
  "slope_degrees dy dx = (if dx \<noteq> 0 then degrees (atan2 dy dx) else 0)"

definition analyze_shoulders :: "keypoint_dict \<Rightarrow> analysis" where
  "analyze_shoulders kps =
     (case (kps ''left_shoulder'', kps ''right_shoulder'') of
        (Some left_shoulder, Some right_shoulder) \<Rightarrow>
          (let height_diff = kp_y left_shoulder - kp_y right_shoulder;
               dx = kp_x right_shoulder - kp_x left_shoulder;
               dy = kp_y right_shoulder - kp_y left_shoulder;
               slope = slope_degrees dy dx;
               shoulder_imbalance = (\<bar>height_diff\<bar> > 10)
           in empty_analysis
                \<lparr>shoulder_slope_degrees := Some (py_round slope 2),
                 shoulder_height_difference := Some (py_round height_diff 1),
                 has_shoulder_imbalance := Some shoulder_imbalance,
                 shoulder_confidence :=
                   Some (min (visibility left_shoulder) (visibility right_shoulder))\<rparr>)
      | _ \<Rightarrow> empty_analysis)"

definition analyze_head_position :: "keypoint_dict \<Rightarrow> analysis" where
  "analyze_head_position kps =
     (case (kps ''nose'', kps ''left_shoulder'', kps ''right_shoulder'') of
        (Some nose, Some left_shoulder, Some right_shoulder) \<Rightarrow>
          (let shoulder_center_x = (kp_x left_shoulder + kp_x right_shoulder) / 2;
               shoulder_center_y = (kp_y left_shoulder + kp_y right_shoulder) / 2;
               offset_x = kp_x nose - shoulder_center_x;
               offset_y = kp_y nose - shoulder_center_y;
               tilt = (if offset_y \<noteq> 0 then degrees (atan2 offset_x \<bar>offset_y\<bar>) else 0)
           in empty_analysis
                \<lparr>head_tilt_degrees := Some (py_round tilt 2),
                 head_offset_x := Some (py_round offset_x 1),
                 head_offset_y := Some (py_round offset_y 1),
                 forward_head_posture := Some (\<bar>offset_x\<bar> > 15),
                 head_confidence := Some (visibility nose)\<rparr>)
      | _ \<Rightarrow> empty_analysis)"

definition analyze_hips :: "keypoint_dict \<Rightarrow> analysis" where
  "analyze_hips kps =
     (case (kps ''left_hip'', kps ''right_hip'') of
        (Some left_hip, Some right_hip) \<Rightarrow>
          (let height_diff = kp_y left_hip - kp_y right_hip;
               dx = kp_x right_hip - kp_x left_hip;
               dy = kp_y right_hip - kp_y left_hip;
               slope = slope_degrees dy dx
           in empty_analysis
                \<lparr>hip_slope_degrees := Some (py_round slope 2),
                 hip_height_difference := Some (py_round height_diff 1),
                 has_hip_imbalance := Some (\<bar>height_diff\<bar> > 8),
                 hip_confidence := Some (min (visibility left_hip) (visibility right_hip))\<rparr>)
      | _ \<Rightarrow> empty_analysis)"

definition analyze_knees :: "keypoint_dict \<Rightarrow> analysis" where
  "analyze_knees kps =
     (case (kps ''left_knee'', kps ''right_knee'', kps ''left_ankle'', kps ''right_ankle'',
            kps ''left_hip'', kps ''right_hip'') of
        (Some left_knee, Some right_knee, Some left_ankle, Some right_ankle,
         Some left_hip, Some right_hip) \<Rightarrow>
          (let knee_dist = \<bar>kp_x left_knee - kp_x right_knee\<bar>;
               ankle_dist = \<bar>kp_x left_ankle - kp_x right_ankle\<bar>;
               hip_dist = \<bar>kp_x left_hip - kp_x right_hip\<bar>;
               valgus_indicator =
                 (if ankle_dist > 0 \<and> hip_dist > 0
                  then (let knee_ratio = knee_dist / ankle_dist
                        in if knee_ratio < 1 then (1 - knee_ratio) * 100 else 0)
                  else 0)
           in empty_analysis
                \<lparr>knee_valgus_angle := Some (py_round (max 0 valgus_indicator) 2),
                 has_knee_valgus := Some (valgus_indicator > 15),
                 knee_distance := Some (py_round knee_dist 1),
                 ankle_distance := Some (py_round ankle_dist 1),
                 knee_confidence := Some (min (visibility left_knee) (visibility right_knee))\<rparr>)
      | _ \<Rightarrow> empty_analysis)"

definition flag :: "bool option \<Rightarrow> bool" where
  \<comment> \<open>\<^verbatim>\<open>d.get(key, False)\<close> read as a condition.\<close>
  "flag b = (case b of None \<Rightarrow> False | Some v \<Rightarrow> v)"

definition get_or_zero :: "real option \<Rightarrow> real" where
  \<comment> \<open>\<^verbatim>\<open>d.get(key, 0)\<close>\<close>
  "get_or_zero v = (case v of None \<Rightarrow> 0 | Some r \<Rightarrow> r)"

definition calculate_posture_score :: "analysis \<Rightarrow> real" where
  "calculate_posture_score metrics =
     (let score = 10.0;
          score = (case shoulder_slope_degrees metrics of
                     None \<Rightarrow> score | Some v \<Rightarrow> fsub score (min (fdiv \<bar>v\<bar> 5) 2.5));
          score = (case hip_slope_degrees metrics of
                     None \<Rightarrow> score | Some v \<Rightarrow> fsub score (min (fdiv \<bar>v\<bar> 5) 2.0));
          score = (case head_tilt_degrees metrics of
                     None \<Rightarrow> score | Some v \<Rightarrow> fsub score (min (fdiv \<bar>v\<bar> 10) 1.5));
          score = (case knee_valgus_angle metrics of
                     None \<Rightarrow> score | Some v \<Rightarrow> fsub score (min (fdiv v 20) 1.5));
          score = (if flag (has_shoulder_imbalance metrics) then fsub score 1.0 else score);
          score = (if flag (has_hip_imbalance metrics) then fsub score 1.0 else score);
          score = (if flag (forward_head_posture metrics) then fsub score 1.0 else score)
      in max 1.0 (fround score 1))"

definition shoulder_message :: "analysis \<Rightarrow> string" where
  "shoulder_message a =
     ''Shoulder imbalance ('' @ format_1f \<bar>get_or_zero (shoulder_slope_degrees a)\<bar>
       @ degree_sign @ ''): '' @ ''Recommended posture correction exercises for shoulders''"

definition forward_head_message :: string where
  "forward_head_message =
     ''Forward head posture: Strengthen neck muscles, check workspace ergonomics''"

definition hip_message :: "analysis \<Rightarrow> string" where
  "hip_message a =
     ''Hip imbalance ('' @ format_1f \<bar>get_or_zero (hip_slope_degrees a)\<bar>
       @ degree_sign @ ''): '' @ ''Exercises for pelvic stabilization''"

definition knee_message :: "analysis \<Rightarrow> string" where
  "knee_message a =
     ''Possible knee valgus ('' @ format_1f (get_or_zero (knee_valgus_angle a))
       @ ''): '' @ ''Consult a doctor and strengthen hip muscles''"

definition normal_range_message :: string where
  "normal_range_message =
     ''Posture is within normal range. Continue maintaining an active lifestyle.''"

definition generate_recommendations :: "analysis \<Rightarrow> string list" where
  \<comment> \<open>\<^verbatim>\<open>PostureAnalysisService._generate_recommendations\<close>: a list of messages.\<close>
  "generate_recommendations a =
     (let recs = [];
          recs = (if flag (has_shoulder_imbalance a) then recs @ [shoulder_message a] else recs);
          recs = (if flag (forward_head_posture a) then recs @ [forward_head_message] else recs);
          recs = (if flag (has_hip_imbalance a) then recs @ [hip_message a] else recs);
          recs = (if flag (has_knee_valgus a) then recs @ [knee_message a] else recs)
      in if recs = [] then recs @ [normal_range_message] else recs)"

definition calculate_posture_metrics :: "keypoint_dict \<Rightarrow> analysis" where
  \<comment> \<open>The source wraps this body in an exception handler that records the error text;
      no step of the body can raise on numeric keypoints, so the handler has no branch here.\<close>
  "calculate_posture_metrics kps =
     (let a = empty_analysis;
          a = update_dict a (analyze_shoulders kps);
          a = update_dict a (analyze_head_position kps);
          a = update_dict a (analyze_hips kps);
          a = update_dict a (analyze_knees kps);
          a = a\<lparr>posture_score := Some (calculate_posture_score a)\<rparr>;
          a = a\<lparr>recommendations := Some (generate_recommendations a)\<rparr>
      in a)"

definition key_indices :: "nat list" where
  "key_indices = [0, 11, 12, 23, 24, 25, 26]"

definition calculate_overall_confidence :: "landmark list \<Rightarrow> real" where
  "calculate_overall_confidence landmarks =
     (let confidences =
            map (\<lambda>i. lm_visibility (landmarks ! i))
              (filter (\<lambda>i. i < length landmarks) key_indices)
      in if confidences \<noteq> []
         then py_round (sum_list confidences / real (length confidences)) 3
         else 0.0)"

datatype image_input =
    Unreadable
  | No_pose
  | Pose "landmark list" nat nat
  | Raises string

definition analyze_posture_from_image :: "image_input \<Rightarrow> string + analysis" where
  \<comment> \<open>The argument stands for what image loading and the pose estimator give for the
      stored file; a dictionary with the key \<^verbatim>\<open>error\<close> is \<open>Inl\<close>.\<close>
  "analyze_posture_from_image img =
     (case img of
        Unreadable \<Rightarrow> Inl ''Failed to load image''
      | No_pose \<Rightarrow> Inl ''No pose detected in image''
      | Raises e \<Rightarrow> Inl (''Analysis error: '' @ e)
      | Pose landmarks img_width img_height \<Rightarrow>
          (let kps = extract_keypoints landmarks img_width img_height;
               a = calculate_posture_metrics kps
           in Inr (a\<lparr>keypoints := Some kps, image_dimensions := Some (img_width, img_height),
                      confidence := Some (calculate_overall_confidence landmarks)\<rparr>)))"

section \<open>Stored analyses and recommendations (models.py)\<close>

text \<open>
  The stored posture analysis. Its nullable columns carry the prefix \<open>pa_\<close>, since the
  result dictionary of the service has keys of the same names.
\<close>

record PostureAnalysis =
  pa_shoulder_slope_degrees :: "real option"
  pa_hip_slope_degrees :: "real option"
  pa_knee_valgus_angle :: "real option"
  pa_head_tilt_degrees :: "real option"
  front_keypoints :: keypoint_dict
  back_keypoints :: keypoint_dict
  pa_posture_score :: "real option"

definition new_posture_analysis :: PostureAnalysis where
  \<comment> \<open>The row that \<^verbatim>\<open>PostureAnalysis.objects.create\<close> gives: every column at its default.\<close>
  "new_posture_analysis =
     \<lparr>pa_shoulder_slope_degrees = None, pa_hip_slope_degrees = None, pa_knee_valgus_angle = None,
      pa_head_tilt_degrees = None, front_keypoints = Map.empty, back_keypoints = Map.empty,
      pa_posture_score = None\<rparr>"

definition model_has_shoulder_imbalance :: "PostureAnalysis \<Rightarrow> bool" where
  \<comment> \<open>The truth value of the model property \<^verbatim>\<open>has_shoulder_imbalance\<close>.\<close>
  "model_has_shoulder_imbalance pa =
     (truthy (pa_shoulder_slope_degrees pa) \<and> \<bar>the (pa_shoulder_slope_degrees pa)\<bar> > 4)"

definition model_has_hip_imbalance :: "PostureAnalysis \<Rightarrow> bool" where
  "model_has_hip_imbalance pa =
     (truthy (pa_hip_slope_degrees pa) \<and> \<bar>the (pa_hip_slope_degrees pa)\<bar> > 4)"

definition model_has_knee_valgus :: "PostureAnalysis \<Rightarrow> bool" where
  "model_has_knee_valgus pa =
     (truthy (pa_knee_valgus_angle pa) \<and> the (pa_knee_valgus_angle pa) > 10)"

record recommendation =
  category :: string
  priority :: string
  title :: string
  description :: string
  action_steps :: "string list"

section \<open>Recommendation engine (services.py, RecommendationEngine)\<close>

definition double_quote :: string where
  "double_quote = [char_of (34::nat)]"

definition shoulder_recommendation :: "PostureAnalysis \<Rightarrow> recommendation" where
  "shoulder_recommendation pa =
     \<lparr>category = ''posture'', priority = ''high'',
      title = ''Shoulder imbalance correction'',
      description = ''Detected shoulder tilt of ''
        @ format_1f \<bar>the (pa_shoulder_slope_degrees pa)\<bar> @ degree_sign,
      action_steps =
        [''Perform '' @ double_quote @ ''face pull'' @ double_quote
           @ '' exercise: 3 sets of 15 repetitions'',
         ''Chest muscle stretching 2-3 times daily for 30 seconds'',
         ''Strengthen rear delts and rhomboid muscles'',
         ''Monitor shoulder position throughout the day'']\<rparr>"

definition hip_recommendation :: "PostureAnalysis \<Rightarrow> recommendation" where
  "hip_recommendation pa =
     \<lparr>category = ''posture'', priority = ''medium'',
      title = ''Pelvic position correction'',
      description = ''Detected pelvic area imbalance of ''
        @ format_1f \<bar>the (pa_hip_slope_degrees pa)\<bar> @ degree_sign,
      action_steps =
        [''Side plank on each side: 3 sets of 30-60 seconds'',
         ''Strengthen gluteus medius'',
         ''Stretch quadratus lumborum'',
         ''Check workspace ergonomics'']\<rparr>"

definition knee_recommendation :: recommendation where
  "knee_recommendation =
     \<lparr>category = ''exercise'', priority = ''high'',
      title = ''Knee valgus correction'',
      description = ''Detected tendency for knee inward collapse'',
      action_steps =
        [''Hip abduction in lying position: 3x15'',
         ''Squats with knee control'',
         ''Strengthen outer thigh muscles'',
         ''IT-band stretching'']\<rparr>"

definition generate_posture_recommendations :: "PostureAnalysis \<Rightarrow> recommendation list" where
  "generate_posture_recommendations pa =
     (let recs = [];
          recs = (if model_has_shoulder_imbalance pa then recs @ [shoulder_recommendation pa] else recs);
          recs = (if model_has_hip_imbalance pa then recs @ [hip_recommendation pa] else recs);
          recs = (if model_has_knee_valgus pa then recs @ [knee_recommendation] else recs)
      in recs)"

section \<open>The posture analysis view (views.py, PostureAnalysisView.post)\<close>

definition rec_title :: string where
  "rec_title = map char_of
     [208, 160, 208, 181, 208, 186, 208, 190, 208, 188, 208, 181, 208, 189, 208, 180, 208,
      176, 209, 134, 208, 184, 209, 143, 32, 208, 191, 208, 190, 32, 208, 190, 209, 129, 208,
      176, 208, 189, 208, 186, 208, 181 :: nat]"

definition fallback_title :: string where
  "fallback_title = map char_of
     [208, 145, 208, 176, 208, 183, 208, 190, 208, 178, 208, 176, 209, 143, 32, 209, 128, 208,
      181, 208, 186, 208, 190, 208, 188, 208, 181, 208, 189, 208, 180, 208, 176, 209, 134,
      208, 184, 209, 143 :: nat]"

definition fallback_description :: string where
  "fallback_description = map char_of
     [208, 157, 208, 181, 32, 209, 131, 208, 180, 208, 176, 208, 187, 208, 190, 209, 129, 209,
      140, 32, 208, 178, 209, 139, 208, 191, 208, 190, 208, 187, 208, 189, 208, 184, 209, 130,
      209, 140, 32, 208, 180, 208, 181, 209, 130, 208, 176, 208, 187, 209, 140, 208, 189, 209,
      139, 208, 185, 32, 208, 176, 208, 189, 208, 176, 208, 187, 208, 184, 208, 183, 46, 32,
      208, 160, 208, 181, 208, 186, 208, 190, 208, 188, 208, 181, 208, 189, 208, 180, 209,
      131, 208, 181, 209, 130, 209, 129, 209, 143, 32, 209, 128, 208, 181, 208, 179, 209, 131,
      208, 187, 209, 143, 209, 128, 208, 189, 208, 176, 209, 143, 32, 209, 132, 208, 184, 208,
      183, 208, 184, 209, 135, 208, 181, 209, 129, 208, 186, 208, 176, 209, 143, 32, 208, 176,
      208, 186, 209, 130, 208, 184, 208, 178, 208, 189, 208, 190, 209, 129, 209, 130, 209,
      140, 46 :: nat]"

definition fallback_step_1 :: string where
  "fallback_step_1 = map char_of
     [208, 146, 209, 139, 208, 191, 208, 190, 208, 187, 208, 189, 209, 143, 208, 185, 209,
      130, 208, 181, 32, 208, 181, 208, 182, 208, 181, 208, 180, 208, 189, 208, 181, 208, 178,
      208, 189, 209, 131, 209, 142, 32, 208, 183, 208, 176, 209, 128, 209, 143, 208, 180, 208,
      186, 209, 131 :: nat]"

definition fallback_step_2 :: string where
  "fallback_step_2 = map char_of
     [208, 161, 208, 187, 208, 181, 208, 180, 208, 184, 209, 130, 208, 181, 32, 208, 183, 208,
      176, 32, 208, 190, 209, 129, 208, 176, 208, 189, 208, 186, 208, 190, 208, 185, 32, 208,
      178, 208, 190, 32, 208, 178, 209, 128, 208, 181, 208, 188, 209, 143, 32, 209, 128, 208,
      176, 208, 177, 208, 190, 209, 130, 209, 139 :: nat]"

definition text_recommendation :: "string \<Rightarrow> recommendation" where
  \<comment> \<open>The row stored for one message of the front-view analysis.\<close>
  "text_recommendation rec_text =
     \<lparr>category = ''posture'', priority = ''medium'', title = rec_title,
      description = rec_text, action_steps = [rec_text]\<rparr>"

definition fallback_recommendation :: recommendation where
  "fallback_recommendation =
     \<lparr>category = ''posture'', priority = ''low'', title = fallback_title,
      description = fallback_description, action_steps = [fallback_step_1, fallback_step_2]\<rparr>"

datatype photo = PhotoUpload "image_input option"

definition photo_image :: "photo option \<Rightarrow> image_input option" where
  \<comment> \<open>\<^verbatim>\<open>photo and photo.image\<close>: the stored file of a photo row, if both exist.\<close>
  "photo_image p = (case p of None \<Rightarrow> None | Some (PhotoUpload img) \<Rightarrow> img)"

datatype response =
    Bad_request
  | Created PostureAnalysis "recommendation list" nat

type_synonym view_state = "PostureAnalysis \<times> recommendation list \<times> nat"

definition front_stage :: "photo option \<Rightarrow> view_state \<Rightarrow> view_state" where
  "front_stage front_photo st =
     (case st of (pa, recs, n_recs) \<Rightarrow>
        (case photo_image front_photo of
           None \<Rightarrow> st
         | Some img \<Rightarrow>
             (case analyze_posture_from_image img of
                Inl e \<Rightarrow> st
              | Inr front_results \<Rightarrow>
                  (let pa = pa\<lparr>front_keypoints :=
                                   (case keypoints front_results of None \<Rightarrow> Map.empty | Some k \<Rightarrow> k),
                                 pa_shoulder_slope_degrees := shoulder_slope_degrees front_results,
                                 pa_head_tilt_degrees := head_tilt_degrees front_results,
                                 pa_knee_valgus_angle := knee_valgus_angle front_results,
                                 pa_posture_score := posture_score front_results\<rparr>;
                       texts = take 3 (case recommendations front_results of
                                         None \<Rightarrow> [] | Some r \<Rightarrow> r)
                   in (pa, recs @ map text_recommendation texts, n_recs + length texts)))))"

definition back_stage :: "photo option \<Rightarrow> view_state \<Rightarrow> view_state" where
  "back_stage back_photo st =
     (case st of (pa, recs, n_recs) \<Rightarrow>
        (case photo_image back_photo of
           None \<Rightarrow> st
         | Some img \<Rightarrow>
             (case analyze_posture_from_image img of
                Inl e \<Rightarrow> st
              | Inr back_results \<Rightarrow>
                  (let pa = pa\<lparr>back_keypoints :=
                                   (case keypoints back_results of None \<Rightarrow> Map.empty | Some k \<Rightarrow> k)\<rparr>;
                       pa = (if \<not> truthy (pa_hip_slope_degrees pa)
                             then pa\<lparr>pa_hip_slope_degrees := hip_slope_degrees back_results\<rparr>
                             else pa);
                       back_score = (case posture_score back_results of None \<Rightarrow> 5 | Some s \<Rightarrow> s);
                       pa = (if truthy (pa_posture_score pa)
                             then pa\<lparr>pa_posture_score :=
                                       Some ((the (pa_posture_score pa) + back_score) / 2)\<rparr>
                             else pa\<lparr>pa_posture_score := Some back_score\<rparr>)
                   in (pa, recs, n_recs)))))"

definition fallback_stage :: "view_state \<Rightarrow> view_state" where
  "fallback_stage st =
     (case st of (pa, recs, n_recs) \<Rightarrow>
        if \<not> truthy (pa_posture_score pa)
        then (pa\<lparr>pa_posture_score := Some 5.0\<rparr>, recs @ [fallback_recommendation], 1)
        else st)"

definition post :: "photo option \<Rightarrow> photo option \<Rightarrow> response" where
  \<comment> \<open>The arguments are the user's front and back photo rows; the result carries the saved
      analysis, the recommendation rows created and the count reported.\<close>
  "post front_photo back_photo =
     (if front_photo = None \<and> back_photo = None then Bad_request
      else (case fallback_stage
                   (back_stage back_photo
                      (front_stage front_photo (new_posture_analysis, [], 0))) of
              (pa, recs, n_recs) \<Rightarrow> Created pa recs n_recs))"

section \<open>Reading a response, reference definitions and sample inputs\<close>

definition created_recommendations :: "response \<Rightarrow> recommendation list" where
  "created_recommendations resp = (case resp of Bad_request \<Rightarrow> [] | Created pa recs n \<Rightarrow> recs)"

definition stored_hip_slope :: "response \<Rightarrow> real option" where
  "stored_hip_slope resp =
     (case resp of Bad_request \<Rightarrow> None | Created pa recs n \<Rightarrow> pa_hip_slope_degrees pa)"

definition stored_posture_score :: "response \<Rightarrow> real option" where
  "stored_posture_score resp =
     (case resp of Bad_request \<Rightarrow> None | Created pa recs n \<Rightarrow> pa_posture_score pa)"

definition hip_landmarks :: "real \<Rightarrow> real \<Rightarrow> landmark list" where
  \<comment> \<open>Twenty-five landmarks at the image centre, except the left hip at height \<open>a\<close> and the
      right hip at height \<open>b\<close>, 0.2 of the width apart.\<close>
  "hip_landmarks a b =
     replicate 23 \<lparr>lm_x = 0.5, lm_y = 0.5, lm_z = 0, lm_visibility = 1\<rparr>
     @ [\<lparr>lm_x = 0.4, lm_y = a, lm_z = 0, lm_visibility = 1\<rparr>,
        \<lparr>lm_x = 0.6, lm_y = b, lm_z = 0, lm_visibility = 1\<rparr>]"

definition penalise :: "real \<Rightarrow> real option \<Rightarrow> real" where
  \<comment> \<open>Subtract a penalty, if there is one.\<close>
  "penalise score p = (case p of None \<Rightarrow> score | Some x \<Rightarrow> fsub score x)"

definition penalties :: "analysis \<Rightarrow> real option list" where
  \<comment> \<open>The specification's penalties in their order: the four capped continuous penalties
      of the metrics present, then 1 for each flag set.\<close>
  "penalties m =
     [map_option (\<lambda>v. min (fdiv \<bar>v\<bar> 5) 2.5) (shoulder_slope_degrees m),
      map_option (\<lambda>v. min (fdiv \<bar>v\<bar> 5) 2.0) (hip_slope_degrees m),
      map_option (\<lambda>v. min (fdiv \<bar>v\<bar> 10) 1.5) (head_tilt_degrees m),
      map_option (\<lambda>v. min (fdiv v 20) 1.5) (knee_valgus_angle m),
      (if has_shoulder_imbalance m = Some True then Some 1 else None),
      (if has_hip_imbalance m = Some True then Some 1 else None),
      (if forward_head_posture m = Some True then Some 1 else None)]"

definition penalised_score :: "analysis \<Rightarrow> real" where
  \<comment> \<open>The specification's score before clamping: start at 10 and subtract the penalties.\<close>
  "penalised_score m = foldl penalise 10 (penalties m)"

definition posture_score_reference :: "analysis \<Rightarrow> real" where
  \<comment> \<open>The specification's reference score: clamp to \<open>[1, 10]\<close>, round to one decimal.\<close>
  "posture_score_reference m = fround (max 1 (min 10 (penalised_score m))) 1"

definition mirror :: "real \<Rightarrow> keypoint \<Rightarrow> keypoint" where
  \<comment> \<open>Mirroring a keypoint in an image of pixel width \<open>W\<close>.\<close>
  "mirror W k = k\<lparr>kp_x := W - kp_x k\<rparr>"

definition swap_mirror :: "real \<Rightarrow> string \<Rightarrow> string \<Rightarrow> keypoint_dict \<Rightarrow> keypoint_dict" where
  \<comment> \<open>Exchange the left and right keypoint of a pair and mirror both.\<close>
  "swap_mirror W l r kps = kps(l := map_option (mirror W) (kps r), r := map_option (mirror W) (kps l))"

definition point :: "real \<Rightarrow> real \<Rightarrow> real \<Rightarrow> keypoint" where
  \<comment> \<open>A keypoint at pixel position \<open>(a, b)\<close> with visibility \<open>v\<close>, in an image of 1000 by 1000
      pixels, at depth 0.\<close>
  "point a b v =
     \<lparr>kp_x = a, kp_y = b, kp_z = 0, visibility = v, x_norm = a / 1000, y_norm = b / 1000\<rparr>"

section \<open>Properties\<close>

subsection \<open>Rounding\<close>

lemma round_half_even_of_int: "round_half_even (of_int k) = k"
  by (simp add: round_half_even_def)

lemma round_half_even_bounds:
  "\<lfloor>v\<rfloor> \<le> round_half_even v \<and> round_half_even v \<le> \<lfloor>v\<rfloor> + 1"
  by (simp add: round_half_even_def Let_def)

lemma round_half_even_mono:
  assumes "v \<le> w" shows "round_half_even v \<le> round_half_even w"
proof (cases "\<lfloor>v\<rfloor> = \<lfloor>w\<rfloor>")
  case True
  with assms show ?thesis by (auto simp: round_half_even_def Let_def)
next
  case False
  with floor_mono [OF assms] have "\<lfloor>v\<rfloor> + 1 \<le> \<lfloor>w\<rfloor>" by linarith
  with round_half_even_bounds [of v] round_half_even_bounds [of w] show ?thesis by linarith
qed

lemma round_half_even_minus: "round_half_even (- v) = - round_half_even v"
proof (cases "v \<in> \<int>")
  case True
  then obtain k where k: "v = of_int k" by (auto elim: Ints_cases)
  then have "- v = of_int (- k)" by simp
  with k show ?thesis using round_half_even_of_int by metis
next
  case False
  then have "v \<noteq> of_int \<lfloor>v\<rfloor>" by (metis Ints_of_int)
  then have f: "\<lfloor>- v\<rfloor> = - \<lfloor>v\<rfloor> - 1" by (simp add: floor_minus ceiling_altdef)
  show ?thesis unfolding round_half_even_def Let_def f by (auto simp: algebra_simps)
qed

lemma py_round_mono: "v \<le> w \<Longrightarrow> py_round v n \<le> py_round w n"
  unfolding py_round_def
  by (intro divide_right_mono) (auto intro!: round_half_even_mono mult_right_mono)

lemma py_round_minus: "py_round (- v) n = - py_round v n"
  using round_half_even_minus [of "v * 10 ^ n"] by (simp add: py_round_def)

lemma py_round_of_int: "py_round (of_int k) n = of_int k"
proof -
  have "of_int k * 10 ^ n = (of_int (k * 10 ^ n) :: real)" by simp
  then have "round_half_even (of_int k * 10 ^ n) = k * 10 ^ n"
    using round_half_even_of_int by metis
  then show ?thesis by (simp add: py_round_def)
qed

lemma py_round_0: "py_round 0 n = 0"
  using py_round_of_int [of 0 n] by simp

lemma py_round_1: "py_round 1 n = 1"
  using py_round_of_int [of 1 n] by simp


lemma py_round_max: "py_round (max a b) n = max (py_round a n) (py_round b n)"
proof (cases "a \<le> b")
  case True
  with py_round_mono [OF True, of n] show ?thesis by (simp add: max_absorb2)
next
  case False
  then have "b \<le> a" by simp
  from py_round_mono [OF this, of n] \<open>b \<le> a\<close> show ?thesis by (simp add: max_absorb1)
qed

lemma py_round_min: "py_round (min a b) n = min (py_round a n) (py_round b n)"
proof (cases "a \<le> b")
  case True
  with py_round_mono [OF True, of n] show ?thesis by (simp add: min_absorb1)
next
  case False
  then have "b \<le> a" by simp
  from py_round_mono [OF this, of n] \<open>b \<le> a\<close> show ?thesis by (simp add: min_absorb2)
qed

lemma py_round_abs: "\<bar>py_round v n\<bar> = py_round \<bar>v\<bar> n"
proof (cases "0 \<le> v")
  case True
  from py_round_mono [OF True, of n] True show ?thesis by (simp add: py_round_0)
next
  case False
  then have "v \<le> 0" by simp
  from py_round_mono [OF this, of n] \<open>v \<le> 0\<close> show ?thesis
    by (simp add: py_round_0 py_round_minus abs_if)
qed

subsection \<open>Binary64 rounding\<close>

lemma ulp_pos: "0 < ulp q"
  by (simp add: ulp_def)

lemma fl_0: "fl 0 = 0"
  using round_half_even_of_int [of 0] by (simp add: fl_def)

lemma fl_minus: "fl (- q) = - fl q"
proof -
  have "ulp (- q) = ulp q" by (simp add: ulp_def binade_def)
  then show ?thesis
    using round_half_even_minus [of "q / ulp q"] by (simp add: fl_def)
qed

lemma fl_nonneg:
  assumes "0 \<le> q" shows "0 \<le> fl q"
proof -
  from assms ulp_pos [of q] have "0 \<le> q / ulp q" by simp
  from round_half_even_mono [OF this] round_half_even_of_int [of 0]
  have "0 \<le> round_half_even (q / ulp q)" by simp
  with ulp_pos [of q] show ?thesis by (simp add: fl_def)
qed

lemma binade_bounds:
  assumes "0 < q"
  shows "q < 2 powr (of_int (binade q) + 1)"
    and "- 1022 < binade q \<Longrightarrow> 2 powr of_int (binade q) \<le> q"
proof -
  let ?e = "\<lfloor>log 2 q\<rfloor>"
  from assms have b: "binade q = max ?e (- 1022)" by (simp add: binade_def)
  have "log 2 q < of_int ?e + 1" by linarith
  also have "\<dots> \<le> of_int (binade q) + 1" using b by simp
  finally have "log 2 q < of_int (binade q) + 1" .
  with assms show "q < 2 powr (of_int (binade q) + 1)" by (simp add: log_less_iff)
  show "2 powr of_int (binade q) \<le> q" if "- 1022 < binade q"
  proof -
    from that b have "binade q = ?e" by simp
    then have "of_int (binade q) \<le> log 2 q" by simp
    with assms show ?thesis by (simp add: le_log_iff)
  qed
qed

lemma binade_mono:
  assumes "0 < q" and "q \<le> r"
  shows "binade q \<le> binade r"
proof -
  from assms have "log 2 q \<le> log 2 r" by simp
  then have "\<lfloor>log 2 q\<rfloor> \<le> \<lfloor>log 2 r\<rfloor>" by (rule floor_mono)
  with assms show ?thesis by (simp add: binade_def)
qed

lemma fl_upper:
  assumes "0 < q"
  shows "fl q \<le> 2 powr (of_int (binade q) + 1)"
proof -
  have p: "2 powr (of_int (binade q) + 1) = of_int (2 ^ 53) * ulp q"
  proof -
    have "of_int (binade q) + 1 = 53 + (of_int (binade q) - 52 :: real)" by simp
    then have "(2::real) powr (of_int (binade q) + 1) = 2 powr (53 + (of_int (binade q) - 52))"
      by (simp only:)
    also have "\<dots> = 2 powr 53 * 2 powr (of_int (binade q) - 52)" by (rule powr_add)
    finally show ?thesis by (simp add: ulp_def)
  qed
  from binade_bounds(1) [OF assms] p have "q / ulp q \<le> of_int (2 ^ 53)"
    using ulp_pos [of q] by (simp add: pos_divide_le_eq)
  from round_half_even_mono [OF this] have "round_half_even (q / ulp q) \<le> 2 ^ 53"
    by (simp only: round_half_even_of_int)
  then have "of_int (round_half_even (q / ulp q)) \<le> (of_int (2 ^ 53) :: real)" by linarith
  with ulp_pos [of q] have "fl q \<le> of_int (2 ^ 53) * ulp q"
    unfolding fl_def by (rule_tac mult_right_mono) simp_all
  with p show ?thesis by simp
qed

lemma fl_lower:
  assumes "0 < q" and "- 1022 < binade q"
  shows "2 powr of_int (binade q) \<le> fl q"
proof -
  have p: "2 powr of_int (binade q) = of_int (2 ^ 52) * ulp q"
  proof -
    have "of_int (binade q) = 52 + (of_int (binade q) - 52 :: real)" by simp
    then have "(2::real) powr of_int (binade q) = 2 powr (52 + (of_int (binade q) - 52))"
      by (simp only:)
    also have "\<dots> = 2 powr 52 * 2 powr (of_int (binade q) - 52)" by (rule powr_add)
    finally show ?thesis by (simp add: ulp_def)
  qed
  from binade_bounds(2) [OF assms] p have "of_int (2 ^ 52) \<le> q / ulp q"
    using ulp_pos [of q] by (simp add: pos_le_divide_eq)
  from round_half_even_mono [OF this] have "2 ^ 52 \<le> round_half_even (q / ulp q)"
    by (simp only: round_half_even_of_int)
  then have "(of_int (2 ^ 52) :: real) \<le> of_int (round_half_even (q / ulp q))" by linarith
  with ulp_pos [of q] have "of_int (2 ^ 52) * ulp q \<le> fl q"
    unfolding fl_def by (rule_tac mult_right_mono) simp_all
  with p show ?thesis by simp
qed

lemma fl_mono_pos:
  assumes "0 < q" and "q \<le> r"
  shows "fl q \<le> fl r"
proof (cases "binade q = binade r")
  case True
  then have u: "ulp q = ulp r" by (simp add: ulp_def)
  from assms(2) ulp_pos [of r] have "q / ulp r \<le> r / ulp r" by (simp add: divide_right_mono)
  from round_half_even_mono [OF this] ulp_pos [of r] show ?thesis
    by (simp add: fl_def u mult_right_mono)
next
  case False
  from assms have r: "0 < r" by simp
  from False binade_mono [OF assms] have lt: "binade q < binade r" by simp
  moreover have "- 1022 \<le> binade q" by (simp add: binade_def)
  ultimately have "- 1022 < binade r" by simp
  from fl_lower [OF r this] have "2 powr of_int (binade r) \<le> fl r" .
  moreover from lt have "(2::real) powr (of_int (binade q) + 1) \<le> 2 powr of_int (binade r)"
    by simp
  ultimately show ?thesis using fl_upper [OF assms(1)] by linarith
qed

lemma fl_mono:
  assumes "q \<le> r" shows "fl q \<le> fl r"
proof -
  consider "0 < q" | "q \<le> 0" "0 \<le> r" | "r < 0" by linarith
  then show ?thesis
  proof cases
    case 1
    from fl_mono_pos [OF 1 assms] show ?thesis .
  next
    case 2
    from 2(1) have "0 \<le> - q" by simp
    from fl_nonneg [OF this] have "fl q \<le> 0" by (simp add: fl_minus)
    with fl_nonneg [OF 2(2)] show ?thesis by simp
  next
    case 3
    with assms have "0 < - r" "- r \<le> - q" by simp_all
    from fl_mono_pos [OF this] show ?thesis by (simp add: fl_minus)
  qed
qed

lemma floor_log2_eq:
  assumes "2 powr of_int k \<le> \<bar>q\<bar>" and "\<bar>q\<bar> < 2 powr (of_int k + 1)"
  shows "\<lfloor>log 2 \<bar>q\<bar>\<rfloor> = k"
proof -
  have pos: "0 < \<bar>q\<bar>" using assms(1) by (smt (verit) powr_gt_zero)
  have "of_int k \<le> log 2 \<bar>q\<bar>" using assms(1) pos by (simp add: le_log_iff)
  moreover have "log 2 \<bar>q\<bar> < of_int k + 1" using assms(2) pos by (simp add: log_less_iff)
  ultimately show ?thesis by (simp add: floor_unique)
qed

lemma pow2_neg:
  assumes "k \<le> 52"
  shows "(2::real) powr (of_int k - 52) = 1 / 2 ^ nat (52 - k)"
proof -
  define n where "n = nat (52 - k)"
  from assms have "of_int k - 52 = - real n" by (simp add: n_def)
  then have "2 powr (of_int k - 52) = 2 powr (- real n)" by (simp only:)
  also have "\<dots> = inverse (2 powr real n)" by (rule powr_minus)
  also have "2 powr real n = (2::real) ^ n" by (rule powr_realpow) simp
  finally show ?thesis by (simp only: n_def inverse_eq_divide)
qed

text \<open>
  Evaluation: once the binary exponent \<open>k\<close> of \<open>q\<close> is known, the nearest binary64 number
  is a rounding of \<open>q\<close> scaled by a power of two.
\<close>

lemma fl_eval:
  assumes "- 1022 \<le> k" and "k \<le> 52"
    and "2 powr of_int k \<le> \<bar>q\<bar>" and "\<bar>q\<bar> < 2 powr (of_int k + 1)"
  shows "fl q = of_int (round_half_even (q * 2 ^ nat (52 - k))) / 2 ^ nat (52 - k)"
proof -
  have e: "binade q = k"
    unfolding binade_def using assms(1) by (simp only: floor_log2_eq [OF assms(3,4)] max_absorb1)
  show ?thesis
    unfolding fl_def ulp_def e pow2_neg [OF assms(2)]
    by (simp only: divide_divide_eq_right div_by_1 times_divide_eq_right mult_1_right mult_1)
qed

lemma fl_eval_pos:
  assumes "n \<le> 52" and "2 ^ n \<le> \<bar>q\<bar>" and "\<bar>q\<bar> < 2 * 2 ^ n"
  shows "fl q = of_int (round_half_even (q * 2 ^ (52 - n))) / 2 ^ (52 - n)"
proof -
  have a: "(2::real) powr of_int (int n) = 2 ^ n"
    using powr_realpow [of 2 n] by simp
  have b: "(2::real) powr (of_int (int n) + 1) = 2 * 2 ^ n"
    using powr_realpow [of 2 "Suc n"] by (simp add: add.commute)
  from assms(1) have c: "nat (52 - int n) = 52 - n" by simp
  from fl_eval [of "int n" q] assms show ?thesis by (simp only: a b c)
qed

lemma fl_eval_neg:
  assumes "n \<le> 1022" and "1 \<le> \<bar>q\<bar> * 2 ^ n" and "\<bar>q\<bar> * 2 ^ n < 2"
  shows "fl q = of_int (round_half_even (q * 2 ^ (52 + n))) / 2 ^ (52 + n)"
proof -
  have a: "(2::real) powr of_int (- int n) = 1 / 2 ^ n"
    using powr_realpow [of 2 n] by (simp add: powr_minus inverse_eq_divide)
  have "of_int (- int n) + 1 = 1 + (- real n)" by simp
  then have "(2::real) powr (of_int (- int n) + 1) = 2 powr (1 + (- real n))" by (simp only:)
  also have "\<dots> = 2 powr 1 * 2 powr (- real n)" by (rule powr_add)
  finally have b: "(2::real) powr (of_int (- int n) + 1) = 2 / 2 ^ n"
    using powr_realpow [of 2 n] by (simp add: powr_minus inverse_eq_divide)
  have c: "nat (52 - (- int n)) = 52 + n" by simp
  from assms(2) have d: "1 / 2 ^ n \<le> \<bar>q\<bar>" by (simp add: pos_divide_le_eq)
  from assms(3) have e: "\<bar>q\<bar> < 2 / 2 ^ n" by (simp add: pos_less_divide_eq)
  from assms(1) have f: "- 1022 \<le> - int n" "- int n \<le> 52" by simp_all
  from fl_eval [OF f, of q] d e show ?thesis by (simp only: a b c)
qed

lemma fl_small_ints:
  "fl 1 = 1" "fl 2 = 2" "fl 5 = 5" "fl 6 = 6" "fl 7 = 7" "fl 8 = 8" "fl 10 = 10"
  "fl 12 = 12" "fl 15 = 15" "fl 30 = 30"
  by (simp_all add: fl_eval_pos [of 0] fl_eval_pos [of 1] fl_eval_pos [of 2] fl_eval_pos [of 3]
        fl_eval_pos [of 4] round_half_even_def)

lemma fround_mono: "v \<le> w \<Longrightarrow> fround v n \<le> fround w n"
  unfolding fround_def by (intro fl_mono py_round_mono)

lemma fround_1: "fround 1 n = 1"
  by (simp add: fround_def py_round_1 fl_small_ints)


lemma fround_max: "fround (max a b) n = max (fround a n) (fround b n)"
proof (cases "a \<le> b")
  case True
  with fround_mono [OF True, of n] show ?thesis by (simp add: max_absorb2)
next
  case False
  then have "b \<le> a" by simp
  from fround_mono [OF this, of n] \<open>b \<le> a\<close> show ?thesis by (simp add: max_absorb1)
qed



subsection \<open>Body composition\<close>

lemma muscle_bounds_aux:
  assumes "5 \<le> fat" "fat \<le> 50"
  shows "22.5 \<le> py_round ((100 - fat) * 0.45) 1 \<and> py_round ((100 - fat) * 0.45) 1 \<le> 42.8"
proof -
  have lo: "py_round 22.5 1 = 22.5" and hi: "py_round 42.75 1 = 42.8"
    by (simp_all add: py_round_def round_half_even_def)
  from assms have "22.5 \<le> (100 - fat) * 0.45" "(100 - fat) * 0.45 \<le> 42.75" by simp_all
  from py_round_mono [OF this(1), of 1] py_round_mono [OF this(2), of 1] lo hi
  show ?thesis by simp
qed

text \<open>
  C10. For every profile, whatever measurements and photo accompany it, the estimator
  reports a muscle mass, and it lies in the closed interval from 22.5 to 42.8.
\<close>

theorem estimated_muscle_mass_bounded:
  "\<exists>mm. estimated_muscle_mass (estimate_body_composition (Some p) measurements photo_path) = Some mm
        \<and> 22.5 \<le> mm \<and> mm \<le> 42.8"
proof -
  define a where "a = (case age p of None \<Rightarrow> 25 | Some n \<Rightarrow> if n = 0 then 25 else n)"
  define body_fat where "body_fat =
     (if gender p = Some ''M'' then (1.20 * bmi p) + (0.23 * real a) - 16.2
      else (1.20 * bmi p) + (0.23 * real a) - 5.4)"
  define fat where "fat = max 5 (min 50 (py_round body_fat 1))"
  have "estimated_muscle_mass (estimate_body_composition (Some p) measurements photo_path)
          = Some (py_round ((100 - fat) * 0.45) 1)"
    unfolding estimate_body_composition_def Let_def fat_def body_fat_def a_def
      empty_body_analysis_def analyze_body_photo_def
    by (cases measurements; cases photo_path;
        simp only: option.case body_analysis.simps prod.case
          split: option.split prod.split if_split;
        simp only: body_analysis.simps simp_thms)
  moreover have "5 \<le> fat" "fat \<le> 50" by (simp_all add: fat_def)
  ultimately show ?thesis using muscle_bounds_aux by simp
qed

lemma fadd_lower:
  assumes "fl a = a" and "0 \<le> y" shows "a \<le> fadd a y"
proof -
  from assms(2) have "a \<le> a + y" by simp
  from fl_mono [OF this] assms(1) show ?thesis by (simp add: fadd_def)
qed

lemma fsub_nonneg: "b \<le> a \<Longrightarrow> 0 \<le> fsub a b"
  unfolding fsub_def by (rule fl_nonneg) simp

lemma fmul_nonneg: "0 \<le> a \<Longrightarrow> 0 \<le> b \<Longrightarrow> 0 \<le> fmul a b"
  unfolding fmul_def by (rule fl_nonneg) simp

lemma fmul_upper:
  assumes "w \<le> 1" and "0 \<le> c" and "fl c = c" shows "fmul w c \<le> c"
proof -
  from mult_right_mono [OF assms(1,2)] have "w * c \<le> c" by simp
  from fl_mono [OF this] assms(3) show ?thesis by (simp add: fmul_def)
qed

lemma fl_0_85_le_1: "fl 0.85 \<le> 1"
  using fl_mono [of "0.85" 1] by (simp add: fl_small_ints)

lemma visceral_code_eq_clamp:
  "(if male then (if w > 1.0 then min 30 (fadd 15 (fmul (fsub w 1.0) 20)) else max 1 (fmul w 12))
    else (if w > fl 0.85 then min 30 (fadd 10 (fmul (fsub w (fl 0.85)) 25))
          else max 1 (fmul w 10)))
   = max 1 (min 30 (visceral_fat_piecewise male w))"
proof -
  have m1: "15 \<le> fadd 15 (fmul (fsub w 1) 20)" if "1 < w"
  proof -
    from that have "0 \<le> fsub w 1" by (intro fsub_nonneg) simp
    then have "0 \<le> fmul (fsub w 1) 20" by (intro fmul_nonneg) simp_all
    then show ?thesis by (intro fadd_lower) (simp_all add: fl_small_ints)
  qed
  have m2: "fmul w 12 \<le> 12" if "\<not> 1 < w"
    using that by (intro fmul_upper) (simp_all add: fl_small_ints)
  have f1: "10 \<le> fadd 10 (fmul (fsub w (fl 0.85)) 25)" if "fl 0.85 < w"
  proof -
    from that have "0 \<le> fsub w (fl 0.85)" by (intro fsub_nonneg) simp
    then have "0 \<le> fmul (fsub w (fl 0.85)) 25" by (intro fmul_nonneg) simp_all
    then show ?thesis by (intro fadd_lower) (simp_all add: fl_small_ints)
  qed
  have f2: "fmul w 10 \<le> 10" if "\<not> fl 0.85 < w"
    using that fl_0_85_le_1 by (intro fmul_upper) (simp_all add: fl_small_ints)
  show ?thesis
    unfolding visceral_fat_piecewise_def
    using m1 m2 f1 f2 by (auto simp: min_def max_def)
qed

lemma visceral_fat_spec_range: "1 \<le> visceral_fat_spec male w \<and> visceral_fat_spec male w \<le> 30"
proof -
  let ?c = "max 1 (min 30 (visceral_fat_piecewise male w))"
  have "(1::real) \<le> ?c" "?c \<le> 30" by simp_all
  from round_half_even_mono [OF this(1)] round_half_even_mono [OF this(2)]
    round_half_even_of_int [of 1] round_half_even_of_int [of 30]
  show ?thesis by (simp add: visceral_fat_spec_def)
qed

text \<open>
  C7. Whenever the measurements carry a waist-hip ratio \<open>w\<close> (one that is not zero, which the
  source reads as absent), the visceral fat level is the piecewise-linear function of \<open>w\<close>
  with breakpoint 1.0 for a male-coded profile and 0.85 otherwise, clamped to \<open>[1, 30]\<close> and
  rounded to an integer; the body shape is apple above 0.85, pear below 0.75 and rectangle
  otherwise, whatever the gender.
\<close>

theorem analyze_measurements_whr:
  assumes "whr measurements = Some w" and "w \<noteq> 0"
  shows "analyze_measurements measurements user_profile =
           Some (visceral_fat_spec
                   (case user_profile of None \<Rightarrow> False | Some p \<Rightarrow> gender p = Some ''M'') w,
                 body_shape_spec w)
         \<and> 1 \<le> visceral_fat_spec
                   (case user_profile of None \<Rightarrow> False | Some p \<Rightarrow> gender p = Some ''M'') w
         \<and> visceral_fat_spec
                   (case user_profile of None \<Rightarrow> False | Some p \<Rightarrow> gender p = Some ''M'') w \<le> 30"
proof -
  from assms have t: "truthy (whr measurements)" by (simp add: truthy_def)
  have "analyze_measurements measurements user_profile =
           Some (visceral_fat_spec
                   (case user_profile of None \<Rightarrow> False | Some p \<Rightarrow> gender p = Some ''M'') w,
                 body_shape_spec w)"
    unfolding analyze_measurements_def Let_def visceral_fat_spec_def body_shape_spec_def
    using t assms(1) by (simp only: if_True option.sel visceral_code_eq_clamp)
  with visceral_fat_spec_range show ?thesis by simp
qed

lemma fl_whr_values:
  "fl (9 / 10) = 8106479329266893 / 9007199254740992"
  "fl (17 / 20) = 7656119366529843 / 9007199254740992"
  "fl (41 / 40) = 2308094809027379 / 2251799813685248"
  by (simp_all add: fl_eval_neg [of 1] fl_eval_pos [of 0] round_half_even_def)

lemma whr_examples:
  "whr \<lparr>waist = Some 90, hips = Some 100\<rparr> = Some (fl 0.9)"
  "whr \<lparr>waist = Some 102.5, hips = Some 100\<rparr> = Some (fl 1.025)"
  by (simp_all add: whr_def truthy_def fround_def fdiv_def fl_whr_values py_round_def
        round_half_even_def)

theorem analyze_measurements_whr_witness:
  "analyze_measurements \<lparr>waist = Some 90, hips = Some 100\<rparr>
      (Some \<lparr>age = Some 30, gender = Some ''F'', height = Some 170, current_weight = Some 65\<rparr>)
     = Some (11, ''apple'')"
proof -
  have n: "fl 0.9 \<noteq> 0" by (simp add: fl_whr_values)
  have v: "visceral_fat_spec False (fl 0.9) = 11"
    by (simp add: visceral_fat_spec_def visceral_fat_piecewise_def fl_whr_values
          fadd_def fmul_def fsub_def fl_eval_neg [of 5] fl_eval_pos [of 0] fl_eval_pos [of 3]
          round_half_even_def)
  have s: "body_shape_spec (fl 0.9) = ''apple''"
    by (simp add: body_shape_spec_def fl_whr_values)
  from analyze_measurements_whr [OF whr_examples(1) n, of
        "Some \<lparr>age = Some 30, gender = Some ''F'', height = Some 170, current_weight = Some 65\<rparr>"]
  show ?thesis by (simp add: v s)
qed

text \<open>
  A level that the exact value would round differently: for a male-coded profile with waist
  102.5 and hips 100 the float \<open>15 + (w - 1.0) * 20\<close> lies just below 15.5 and the level is 15.
\<close>

lemma visceral_fat_float_example:
  "analyze_measurements \<lparr>waist = Some 102.5, hips = Some 100\<rparr>
      (Some \<lparr>age = Some 40, gender = Some ''M'', height = Some 180, current_weight = Some 90\<rparr>)
     = Some (15, ''apple'')"
  unfolding analyze_measurements_def Let_def whr_examples
  by (simp add: truthy_def fl_whr_values fadd_def fmul_def fsub_def
        fl_eval_neg [of 6] fl_eval_neg [of 2] fl_eval_pos [of 3] round_half_even_def)

subsection \<open>Progress score\<close>

lemma progress_score_closed_form:
  "calculate_overall_progress_score (snapshot_progress wd pd) =
     min 10 (max 1 (fround
       (fadd (if wd < 0 then fadd 5 (min (fmul \<bar>wd\<bar> 0.5) 2.5) else 5)
             (min (fmul pd 0.5) 2.5)) 1))"
  by (cases "wd < 0")
     (simp_all add: calculate_overall_progress_score_def snapshot_progress_def)


lemma fl_halves:
  "fl (1 / 2) = 1 / 2" "fl (3 / 2) = 3 / 2" "fl (13 / 2) = 13 / 2"
  "fl (1 / 4) = 1 / 4" "fl (21 / 4) = 21 / 4" "fl (1 / 8) = 1 / 8" "fl (43 / 8) = 43 / 8"
  by (simp_all add: fl_eval_neg [of 1] fl_eval_neg [of 2] fl_eval_neg [of 3]
        fl_eval_pos [of 0] fl_eval_pos [of 2] round_half_even_def)





text \<open>
  Two values that the exact sum would round differently: with the floats nearest to -0.7
  and 0.1 as deltas the score is the float 5.3, respectively 6.5.
\<close>

lemma fl_tenths:
  "fl (7 / 10) = 3152519739159347 / 4503599627370496"
  "fl (1 / 10) = 3602879701896397 / 36028797018963968"
  "fl (53 / 10) = 5967269506265907 / 1125899906842624"
  by (simp_all add: fl_eval_neg [of 1] fl_eval_neg [of 4] fl_eval_pos [of 2] round_half_even_def)

lemma progress_score_float_examples:
  "calculate_overall_progress_score (snapshot_progress (- fl 0.7) 0) = fl 5.3"
  "calculate_overall_progress_score (snapshot_progress (- 3) (fl 0.1)) = fl 6.5"
proof -
  show "calculate_overall_progress_score (snapshot_progress (- fl 0.7) 0) = fl 5.3"
    unfolding progress_score_closed_form
    by (simp add: fl_tenths fadd_def fmul_def fround_def py_round_def fl_0
          fl_eval_neg [of 2] fl_eval_pos [of 2] round_half_even_def)
  show "calculate_overall_progress_score (snapshot_progress (- 3) (fl 0.1)) = fl 6.5"
    unfolding progress_score_closed_form
    by (simp add: fl_tenths fl_halves fadd_def fmul_def fround_def py_round_def
          fl_eval_neg [of 5] fl_eval_pos [of 2] round_half_even_def)
qed

subsection \<open>Posture score\<close>

lemma case_penalise:
  "(case x of None \<Rightarrow> s | Some v \<Rightarrow> fsub s (f v)) = penalise s (map_option f x)"
  by (cases x) (simp_all add: penalise_def)

lemma if_penalise:
  "(if b then fsub s 1.0 else s) = penalise s (if b then Some 1 else None)"
  by (simp add: penalise_def)

lemma flag_iff: "flag b = (b = Some True)"
  by (cases b) (simp_all add: flag_def)

lemma calculate_posture_score_raw:
  "calculate_posture_score m = max 1 (fround (penalised_score m) 1)"
  unfolding calculate_posture_score_def Let_def penalised_score_def penalties_def
  by (simp only: case_penalise if_penalise flag_iff foldl.simps) simp

lemma penalise_le_10:
  assumes "s \<le> 10" and "case p of None \<Rightarrow> True | Some x \<Rightarrow> 0 \<le> x"
  shows "penalise s p \<le> 10"
proof (cases p)
  case None
  with assms(1) show ?thesis by (simp add: penalise_def)
next
  case (Some x)
  with assms have "s - x \<le> 10" by simp
  from fl_mono [OF this] Some show ?thesis by (simp add: penalise_def fsub_def fl_small_ints)
qed

lemma foldl_penalise_le_10:
  assumes "s \<le> 10" and "\<forall>p \<in> set ps. case p of None \<Rightarrow> True | Some x \<Rightarrow> 0 \<le> x"
  shows "foldl penalise s ps \<le> 10"
  using assms
proof (induction ps arbitrary: s)
  case Nil
  then show ?case by simp
next
  case (Cons p ps)
  from Cons.prems have "penalise s p \<le> 10" by (intro penalise_le_10) simp_all
  with Cons.IH [of "penalise s p"] Cons.prems(2) show ?case by simp
qed

lemma capped_nonneg: "0 \<le> min (fdiv \<bar>v\<bar> d) c" if "0 < d" and "0 \<le> c"
proof -
  from that(1) have "0 \<le> \<bar>v\<bar> / d" by simp
  from fl_nonneg [OF this] that(2) show ?thesis by (simp add: fdiv_def)
qed

lemma penalties_nonneg:
  assumes "case knee_valgus_angle m of None \<Rightarrow> True | Some v \<Rightarrow> 0 \<le> v"
  shows "\<forall>p \<in> set (penalties m). case p of None \<Rightarrow> True | Some x \<Rightarrow> 0 \<le> x"
proof -
  have k: "case map_option (\<lambda>v. min (fdiv v 20) 1.5) (knee_valgus_angle m) of
             None \<Rightarrow> True | Some x \<Rightarrow> 0 \<le> x"
  proof (cases "knee_valgus_angle m")
    case None
    then show ?thesis by simp
  next
    case (Some v)
    with assms have "0 \<le> v / 20" by simp
    from fl_nonneg [OF this] Some show ?thesis by (simp add: fdiv_def)
  qed
  have c: "case map_option (\<lambda>v. min (fdiv \<bar>v\<bar> d) b) x of None \<Rightarrow> True | Some y \<Rightarrow> 0 \<le> y"
    if "0 < d" "0 \<le> b" for d b :: real and x
    using capped_nonneg [OF that] by (cases x) simp_all
  show ?thesis
    unfolding penalties_def using k c [of 5 "2.5"] c [of 5 "2.0"] c [of 10 "1.5"]
    by simp
qed

lemma penalised_score_le_10:
  assumes "case knee_valgus_angle m of None \<Rightarrow> True | Some v \<Rightarrow> 0 \<le> v"
  shows "penalised_score m \<le> 10"
  unfolding penalised_score_def
  by (rule foldl_penalise_le_10 [OF _ penalties_nonneg [OF assms]]) simp

text \<open>
  C1. For every metrics record whose knee valgus indicator, where present, is not negative
  (the indicator is produced on a scale from 0 upwards), the posture score of the code
  equals the reference: start at 10, subtract the capped continuous penalties of the metrics
  present and a further 1 for each imbalance flag that is set, clamp to \<open>[1, 10]\<close> and round
  to one decimal, all in the program's float arithmetic.
\<close>

theorem calculate_posture_score_reference:
  assumes "case knee_valgus_angle m of None \<Rightarrow> True | Some v \<Rightarrow> 0 \<le> v"
  shows "calculate_posture_score m = posture_score_reference m"
proof -
  have "posture_score_reference m = fround (max 1 (min 10 (penalised_score m))) 1"
    by (simp only: posture_score_reference_def)
  also have "\<dots> = fround (max 1 (penalised_score m)) 1"
    using penalised_score_le_10 [OF assms] by (simp add: min_absorb2)
  also have "\<dots> = max 1 (fround (penalised_score m) 1)"
    by (simp only: fround_max fround_1)
  finally show ?thesis by (simp only: calculate_posture_score_raw)
qed

theorem calculate_posture_score_reference_witness:
  "calculate_posture_score
     (empty_analysis\<lparr>shoulder_slope_degrees := Some 10, knee_valgus_angle := Some 20,
        has_shoulder_imbalance := Some True\<rparr>) = 6"
proof -
  let ?m = "empty_analysis\<lparr>shoulder_slope_degrees := Some 10, knee_valgus_angle := Some 20,
        has_shoulder_imbalance := Some True\<rparr>"
  have h: "case knee_valgus_angle ?m of None \<Rightarrow> True | Some v \<Rightarrow> 0 \<le> v" by simp
  have "posture_score_reference ?m = 6"
    by (simp add: posture_score_reference_def penalised_score_def penalties_def penalise_def
          empty_analysis_def fround_def fsub_def fdiv_def fl_small_ints py_round_def
          round_half_even_def)
  with calculate_posture_score_reference [OF h] show ?thesis by simp
qed

text \<open>
  A score that the exact difference would round differently: a shoulder slope of 0.25
  degrees alone gives the float 9.9, since the float \<open>10.0 - 0.25 / 5\<close> lies just below 9.95.
\<close>

lemma posture_score_float_example:
  "calculate_posture_score (empty_analysis\<lparr>shoulder_slope_degrees := Some 0.25\<rparr>) = fl 9.9"
proof -
  have v: "fl (1 / 20) = 3602879701896397 / 72057594037927936"
    "fl (99 / 10) = 5573204538870989 / 562949953421312"
    by (simp_all add: fl_eval_neg [of 5] fl_eval_pos [of 3] round_half_even_def)
  show ?thesis
    unfolding calculate_posture_score_raw
    by (simp add: penalised_score_def penalties_def penalise_def empty_analysis_def
          fround_def fsub_def fdiv_def v fl_eval_pos [of 3] py_round_def round_half_even_def)
qed

subsection \<open>Degenerate geometry\<close>

lemma slope_degrees_vertical: "slope_degrees dy 0 = 0"
  by (simp add: slope_degrees_def)

lemma analyze_shoulders_slope:
  assumes "kps ''left_shoulder'' = Some l" and "kps ''right_shoulder'' = Some r"
  shows "shoulder_slope_degrees (analyze_shoulders kps)
           = Some (py_round (slope_degrees (kp_y r - kp_y l) (kp_x r - kp_x l)) 2)"
  using assms by (simp add: analyze_shoulders_def Let_def)

lemma analyze_hips_slope:
  assumes "kps ''left_hip'' = Some l" and "kps ''right_hip'' = Some r"
  shows "hip_slope_degrees (analyze_hips kps)
           = Some (py_round (slope_degrees (kp_y r - kp_y l) (kp_x r - kp_x l)) 2)"
  using assms by (simp add: analyze_hips_def Let_def)

lemma analyze_head_tilt:
  assumes "kps ''nose'' = Some n" and "kps ''left_shoulder'' = Some l"
    and "kps ''right_shoulder'' = Some r"
  shows "head_tilt_degrees (analyze_head_position kps)
           = Some (py_round
                (if kp_y n - (kp_y l + kp_y r) / 2 \<noteq> 0
                 then degrees (atan2 (kp_x n - (kp_x l + kp_x r) / 2)
                                 \<bar>kp_y n - (kp_y l + kp_y r) / 2\<bar>)
                 else 0) 2)"
  using assms by (simp add: analyze_head_position_def Let_def)

text \<open>
  C6. When the left and right shoulder (respectively hip) keypoints have equal
  x-coordinates, the analysis returns the slope angle 0, whatever their y-coordinates;
  and when the nose lies at the height of the shoulder midpoint, the head analysis returns
  the tilt angle 0. In each case a value is returned.
\<close>

theorem degenerate_angles_zero:
  "(kps ''left_shoulder'' = Some ls \<and> kps ''right_shoulder'' = Some rs \<and> kp_x ls = kp_x rs
      \<longrightarrow> shoulder_slope_degrees (analyze_shoulders kps) = Some 0)
   \<and> (kps ''left_hip'' = Some lh \<and> kps ''right_hip'' = Some rh \<and> kp_x lh = kp_x rh
      \<longrightarrow> hip_slope_degrees (analyze_hips kps) = Some 0)
   \<and> (kps ''nose'' = Some n \<and> kps ''left_shoulder'' = Some ls \<and> kps ''right_shoulder'' = Some rs
        \<and> kp_y n = (kp_y ls + kp_y rs) / 2
      \<longrightarrow> head_tilt_degrees (analyze_head_position kps) = Some 0)"
proof (intro conjI impI)
  assume "kps ''left_shoulder'' = Some ls \<and> kps ''right_shoulder'' = Some rs \<and> kp_x ls = kp_x rs"
  then show "shoulder_slope_degrees (analyze_shoulders kps) = Some 0"
    by (simp add: analyze_shoulders_slope slope_degrees_vertical py_round_0)
next
  assume "kps ''left_hip'' = Some lh \<and> kps ''right_hip'' = Some rh \<and> kp_x lh = kp_x rh"
  then show "hip_slope_degrees (analyze_hips kps) = Some 0"
    by (simp add: analyze_hips_slope slope_degrees_vertical py_round_0)
next
  assume "kps ''nose'' = Some n \<and> kps ''left_shoulder'' = Some ls
            \<and> kps ''right_shoulder'' = Some rs \<and> kp_y n = (kp_y ls + kp_y rs) / 2"
  then show "head_tilt_degrees (analyze_head_position kps) = Some 0"
    by (simp add: analyze_head_tilt py_round_0)
qed

theorem degenerate_angles_zero_witness:
  "shoulder_slope_degrees (analyze_shoulders
      [''nose'' \<mapsto> point 130 230 1, ''left_shoulder'' \<mapsto> point 100 200 1,
       ''right_shoulder'' \<mapsto> point 100 260 1, ''left_hip'' \<mapsto> point 90 400 1,
       ''right_hip'' \<mapsto> point 90 380 1]) = Some 0
   \<and> hip_slope_degrees (analyze_hips
      [''nose'' \<mapsto> point 130 230 1, ''left_shoulder'' \<mapsto> point 100 200 1,
       ''right_shoulder'' \<mapsto> point 100 260 1, ''left_hip'' \<mapsto> point 90 400 1,
       ''right_hip'' \<mapsto> point 90 380 1]) = Some 0
   \<and> head_tilt_degrees (analyze_head_position
      [''nose'' \<mapsto> point 130 230 1, ''left_shoulder'' \<mapsto> point 100 200 1,
       ''right_shoulder'' \<mapsto> point 100 260 1, ''left_hip'' \<mapsto> point 90 400 1,
       ''right_hip'' \<mapsto> point 90 380 1]) = Some 0"
  using degenerate_angles_zero
    [of "[''nose'' \<mapsto> point 130 230 1, ''left_shoulder'' \<mapsto> point 100 200 1,
          ''right_shoulder'' \<mapsto> point 100 260 1, ''left_hip'' \<mapsto> point 90 400 1,
          ''right_hip'' \<mapsto> point 90 380 1]"
        "point 100 200 1" "point 100 260 1" "point 90 400 1" "point 90 380 1" "point 130 230 1"]
  by (simp add: point_def)

subsection \<open>Mirrored landmarks\<close>

lemma atan2_minus:
  assumes "\<not> (b = 0 \<and> a < 0)"
  shows "atan2 (- b) a = - atan2 b a"
  using assms by (auto simp: atan2_def arctan_minus)

lemma atan2_zero_left: "a < 0 \<Longrightarrow> atan2 0 a = pi"
  by (simp add: atan2_def)

lemma degrees_minus: "degrees (- r) = - degrees r"
  by (simp add: degrees_def)

lemma degrees_pi: "degrees pi = 180"
  by (simp add: degrees_def)

lemma slope_degrees_minus:
  assumes "\<not> (dy = 0 \<and> dx < 0)"
  shows "slope_degrees (- dy) dx = - slope_degrees dy dx"
  using assms by (simp add: slope_degrees_def atan2_minus degrees_minus)

lemma slope_degrees_level_reversed: "dx < 0 \<Longrightarrow> slope_degrees 0 dx = 180"
  by (simp add: slope_degrees_def atan2_zero_left degrees_pi)

lemma analyze_shoulders_fields:
  assumes "kps ''left_shoulder'' = Some l" and "kps ''right_shoulder'' = Some r"
  shows "shoulder_height_difference (analyze_shoulders kps) = Some (py_round (kp_y l - kp_y r) 1)"
    and "has_shoulder_imbalance (analyze_shoulders kps) = Some (\<bar>kp_y l - kp_y r\<bar> > 10)"
    and "shoulder_confidence (analyze_shoulders kps) = Some (min (visibility l) (visibility r))"
  using assms by (simp_all add: analyze_shoulders_def Let_def)

lemma analyze_hips_fields:
  assumes "kps ''left_hip'' = Some l" and "kps ''right_hip'' = Some r"
  shows "hip_height_difference (analyze_hips kps) = Some (py_round (kp_y l - kp_y r) 1)"
    and "has_hip_imbalance (analyze_hips kps) = Some (\<bar>kp_y l - kp_y r\<bar> > 8)"
    and "hip_confidence (analyze_hips kps) = Some (min (visibility l) (visibility r))"
  using assms by (simp_all add: analyze_hips_def Let_def)

lemma swap_mirror_shoulders:
  assumes "kps ''left_shoulder'' = Some l" and "kps ''right_shoulder'' = Some r"
  shows "swap_mirror W ''left_shoulder'' ''right_shoulder'' kps ''left_shoulder'' = Some (mirror W r)"
    and "swap_mirror W ''left_shoulder'' ''right_shoulder'' kps ''right_shoulder'' = Some (mirror W l)"
  using assms by (simp_all add: swap_mirror_def)

lemma swap_mirror_hips:
  assumes "kps ''left_hip'' = Some l" and "kps ''right_hip'' = Some r"
  shows "swap_mirror W ''left_hip'' ''right_hip'' kps ''left_hip'' = Some (mirror W r)"
    and "swap_mirror W ''left_hip'' ''right_hip'' kps ''right_hip'' = Some (mirror W l)"
  using assms by (simp_all add: swap_mirror_def)

lemma mirror_sel: "kp_x (mirror W k) = W - kp_x k" "kp_y (mirror W k) = kp_y k"
  "visibility (mirror W k) = visibility k"
  by (simp_all add: mirror_def)

lemma mirrored_dx: "(W - kp_x l) - (W - kp_x r) = kp_x r - kp_x (l::keypoint)"
  by simp

lemma shoulders_mirrored:
  fixes W :: real and kps :: keypoint_dict
  assumes l: "kps ''left_shoulder'' = Some l" and r: "kps ''right_shoulder'' = Some r"
  defines "kps' \<equiv> swap_mirror W ''left_shoulder'' ''right_shoulder'' kps"
  shows "shoulder_height_difference (analyze_shoulders kps')
           = map_option uminus (shoulder_height_difference (analyze_shoulders kps))"
    and "has_shoulder_imbalance (analyze_shoulders kps')
           = has_shoulder_imbalance (analyze_shoulders kps)"
    and "\<not> (kp_y l = kp_y r \<and> kp_x r < kp_x l) \<Longrightarrow>
         shoulder_slope_degrees (analyze_shoulders kps')
           = map_option uminus (shoulder_slope_degrees (analyze_shoulders kps))"
    and "kp_y l = kp_y r \<and> kp_x r < kp_x l \<Longrightarrow>
         shoulder_slope_degrees (analyze_shoulders kps') = Some 180
         \<and> shoulder_slope_degrees (analyze_shoulders kps) = Some 180"
proof -
  note sm = swap_mirror_shoulders [OF l r, of W]
  have hd: "kp_y r - kp_y l = - (kp_y l - kp_y r)" by simp
  show "shoulder_height_difference (analyze_shoulders kps')
           = map_option uminus (shoulder_height_difference (analyze_shoulders kps))"
    unfolding kps'_def analyze_shoulders_fields [OF sm] analyze_shoulders_fields [OF l r]
    by (simp only: mirror_sel hd py_round_minus option.map)
  show "has_shoulder_imbalance (analyze_shoulders kps')
           = has_shoulder_imbalance (analyze_shoulders kps)"
    unfolding kps'_def analyze_shoulders_fields [OF sm] analyze_shoulders_fields [OF l r]
    by (simp add: mirror_sel abs_minus_commute)
  have dy: "kp_y l - kp_y r = - (kp_y r - kp_y l)" by simp
  show "shoulder_slope_degrees (analyze_shoulders kps')
           = map_option uminus (shoulder_slope_degrees (analyze_shoulders kps))"
    if "\<not> (kp_y l = kp_y r \<and> kp_x r < kp_x l)"
  proof -
    from that have "\<not> (kp_y r - kp_y l = 0 \<and> kp_x r - kp_x l < 0)" by auto
    from slope_degrees_minus [OF this] show ?thesis
      unfolding kps'_def analyze_shoulders_slope [OF sm] analyze_shoulders_slope [OF l r]
      by (simp only: mirror_sel mirrored_dx dy py_round_minus option.map)
  qed
  show "shoulder_slope_degrees (analyze_shoulders kps') = Some 180
         \<and> shoulder_slope_degrees (analyze_shoulders kps) = Some 180"
    if "kp_y l = kp_y r \<and> kp_x r < kp_x l"
  proof -
    from that have z: "kp_y r - kp_y l = 0" "kp_y l - kp_y r = 0" and n: "kp_x r - kp_x l < 0"
      by simp_all
    have "py_round 180 2 = 180" using py_round_of_int [of 180 2] by simp
    with slope_degrees_level_reversed [OF n] show ?thesis
      unfolding kps'_def analyze_shoulders_slope [OF sm] analyze_shoulders_slope [OF l r]
      by (simp only: mirror_sel mirrored_dx z simp_thms)
  qed
qed


lemma hips_mirrored:
  fixes W :: real and kps :: keypoint_dict
  assumes l: "kps ''left_hip'' = Some l" and r: "kps ''right_hip'' = Some r"
  defines "kps' \<equiv> swap_mirror W ''left_hip'' ''right_hip'' kps"
  shows "hip_height_difference (analyze_hips kps')
           = map_option uminus (hip_height_difference (analyze_hips kps))"
    and "has_hip_imbalance (analyze_hips kps')
           = has_hip_imbalance (analyze_hips kps)"
    and "\<not> (kp_y l = kp_y r \<and> kp_x r < kp_x l) \<Longrightarrow>
         hip_slope_degrees (analyze_hips kps')
           = map_option uminus (hip_slope_degrees (analyze_hips kps))"
    and "kp_y l = kp_y r \<and> kp_x r < kp_x l \<Longrightarrow>
         hip_slope_degrees (analyze_hips kps') = Some 180
         \<and> hip_slope_degrees (analyze_hips kps) = Some 180"
proof -
  note sm = swap_mirror_hips [OF l r, of W]
  have hd: "kp_y r - kp_y l = - (kp_y l - kp_y r)" by simp
  show "hip_height_difference (analyze_hips kps')
           = map_option uminus (hip_height_difference (analyze_hips kps))"
    unfolding kps'_def analyze_hips_fields [OF sm] analyze_hips_fields [OF l r]
    by (simp only: mirror_sel hd py_round_minus option.map)
  show "has_hip_imbalance (analyze_hips kps')
           = has_hip_imbalance (analyze_hips kps)"
    unfolding kps'_def analyze_hips_fields [OF sm] analyze_hips_fields [OF l r]
    by (simp add: mirror_sel abs_minus_commute)
  have dy: "kp_y l - kp_y r = - (kp_y r - kp_y l)" by simp
  show "hip_slope_degrees (analyze_hips kps')
           = map_option uminus (hip_slope_degrees (analyze_hips kps))"
    if "\<not> (kp_y l = kp_y r \<and> kp_x r < kp_x l)"
  proof -
    from that have "\<not> (kp_y r - kp_y l = 0 \<and> kp_x r - kp_x l < 0)" by auto
    from slope_degrees_minus [OF this] show ?thesis
      unfolding kps'_def analyze_hips_slope [OF sm] analyze_hips_slope [OF l r]
      by (simp only: mirror_sel mirrored_dx dy py_round_minus option.map)
  qed
  show "hip_slope_degrees (analyze_hips kps') = Some 180
         \<and> hip_slope_degrees (analyze_hips kps) = Some 180"
    if "kp_y l = kp_y r \<and> kp_x r < kp_x l"
  proof -
    from that have z: "kp_y r - kp_y l = 0" "kp_y l - kp_y r = 0" and n: "kp_x r - kp_x l < 0"
      by simp_all
    have "py_round 180 2 = 180" using py_round_of_int [of 180 2] by simp
    with slope_degrees_level_reversed [OF n] show ?thesis
      unfolding kps'_def analyze_hips_slope [OF sm] analyze_hips_slope [OF l r]
      by (simp only: mirror_sel mirrored_dx z simp_thms)
  qed
qed


lemma slope_degrees_diagonal: "0 < d \<Longrightarrow> slope_degrees d d = 45"
  by (simp add: slope_degrees_def atan2_def degrees_def arctan_one)

text \<open>
  C9, as amended. Exchanging the left and right keypoint of the shoulder (respectively hip)
  pair while mirroring their x-coordinates in a width \<open>W\<close> negates the height difference and
  leaves the imbalance flag unchanged; it negates the slope angle unless the two points
  are level with the left one lying to the right of the right one.
\<close>

theorem mirrored_pair_analysis:
  "(kps ''left_shoulder'' = Some ls \<and> kps ''right_shoulder'' = Some rs \<longrightarrow>
      shoulder_height_difference
          (analyze_shoulders (swap_mirror W ''left_shoulder'' ''right_shoulder'' kps))
        = map_option uminus (shoulder_height_difference (analyze_shoulders kps))
      \<and> has_shoulder_imbalance
          (analyze_shoulders (swap_mirror W ''left_shoulder'' ''right_shoulder'' kps))
        = has_shoulder_imbalance (analyze_shoulders kps)
      \<and> (\<not> (kp_y ls = kp_y rs \<and> kp_x rs < kp_x ls) \<longrightarrow>
           shoulder_slope_degrees
               (analyze_shoulders (swap_mirror W ''left_shoulder'' ''right_shoulder'' kps))
             = map_option uminus (shoulder_slope_degrees (analyze_shoulders kps))))
   \<and> (kps ''left_hip'' = Some lh \<and> kps ''right_hip'' = Some rh \<longrightarrow>
      hip_height_difference (analyze_hips (swap_mirror W ''left_hip'' ''right_hip'' kps))
        = map_option uminus (hip_height_difference (analyze_hips kps))
      \<and> has_hip_imbalance (analyze_hips (swap_mirror W ''left_hip'' ''right_hip'' kps))
        = has_hip_imbalance (analyze_hips kps)
      \<and> (\<not> (kp_y lh = kp_y rh \<and> kp_x rh < kp_x lh) \<longrightarrow>
           hip_slope_degrees (analyze_hips (swap_mirror W ''left_hip'' ''right_hip'' kps))
             = map_option uminus (hip_slope_degrees (analyze_hips kps))))"
  using shoulders_mirrored(1,2,3) [of kps ls rs W] hips_mirrored(1,2,3) [of kps lh rh W]
  by blast

theorem mirrored_pair_analysis_witness:
  "shoulder_slope_degrees
       (analyze_shoulders (swap_mirror 400 ''left_shoulder'' ''right_shoulder''
          [''left_shoulder'' \<mapsto> point 100 200 1, ''right_shoulder'' \<mapsto> point 300 400 1,
           ''left_hip'' \<mapsto> point 120 500 1, ''right_hip'' \<mapsto> point 280 660 1]))
     = Some (- 45)
   \<and> hip_slope_degrees
       (analyze_hips (swap_mirror 400 ''left_hip'' ''right_hip''
          [''left_shoulder'' \<mapsto> point 100 200 1, ''right_shoulder'' \<mapsto> point 300 400 1,
           ''left_hip'' \<mapsto> point 120 500 1, ''right_hip'' \<mapsto> point 280 660 1]))
     = Some (- 45)"
proof -
  let ?k = "[''left_shoulder'' \<mapsto> point 100 200 1, ''right_shoulder'' \<mapsto> point 300 400 1,
             ''left_hip'' \<mapsto> point 120 500 1, ''right_hip'' \<mapsto> point 280 660 1]"
  have r: "py_round 45 2 = 45" using py_round_of_int [of 45 2] by simp
  have ks: "?k ''left_shoulder'' = Some (point 100 200 1)
              \<and> ?k ''right_shoulder'' = Some (point 300 400 1)" by simp
  have kh: "?k ''left_hip'' = Some (point 120 500 1)
              \<and> ?k ''right_hip'' = Some (point 280 660 1)" by simp
  have ns: "\<not> (kp_y (point 100 200 1) = kp_y (point 300 400 1)
                 \<and> kp_x (point 300 400 1) < kp_x (point 100 200 1))"
    and nh: "\<not> (kp_y (point 120 500 1) = kp_y (point 280 660 1)
                 \<and> kp_x (point 280 660 1) < kp_x (point 120 500 1))"
    by (simp_all add: point_def)
  have s: "shoulder_slope_degrees (analyze_shoulders ?k) = Some 45"
    using ks by (simp add: analyze_shoulders_slope point_def slope_degrees_diagonal r)
  have h: "hip_slope_degrees (analyze_hips ?k) = Some 45"
    using kh by (simp add: analyze_hips_slope point_def slope_degrees_diagonal r)
  from mirrored_pair_analysis
         [of ?k "point 100 200 1" "point 300 400 1" 400 "point 120 500 1" "point 280 660 1"]
       ks kh ns nh
  have "shoulder_slope_degrees
          (analyze_shoulders (swap_mirror 400 ''left_shoulder'' ''right_shoulder'' ?k))
          = map_option uminus (shoulder_slope_degrees (analyze_shoulders ?k))"
    and "hip_slope_degrees (analyze_hips (swap_mirror 400 ''left_hip'' ''right_hip'' ?k))
          = map_option uminus (hip_slope_degrees (analyze_hips ?k))"
    by blast+
  then show ?thesis by (simp only: s h option.map simp_thms)
qed

text \<open>
  C9 as stated fails for level points in reversed order: with the left shoulder at
  \<open>(300, 200)\<close> and the right shoulder at \<open>(100, 200)\<close> in a width of 400 the slope angle
  is 180 before and after the exchange, not negated.
\<close>

theorem mirrored_slope_counterexample:
  "shoulder_slope_degrees
       (analyze_shoulders (swap_mirror 400 ''left_shoulder'' ''right_shoulder''
          [''left_shoulder'' \<mapsto> point 300 200 1, ''right_shoulder'' \<mapsto> point 100 200 1]))
     = Some 180
   \<and> shoulder_slope_degrees
       (analyze_shoulders
          [''left_shoulder'' \<mapsto> point 300 200 1, ''right_shoulder'' \<mapsto> point 100 200 1])
     = Some 180
   \<and> shoulder_slope_degrees
       (analyze_shoulders (swap_mirror 400 ''left_shoulder'' ''right_shoulder''
          [''left_shoulder'' \<mapsto> point 300 200 1, ''right_shoulder'' \<mapsto> point 100 200 1]))
     \<noteq> map_option uminus (shoulder_slope_degrees
       (analyze_shoulders
          [''left_shoulder'' \<mapsto> point 300 200 1, ''right_shoulder'' \<mapsto> point 100 200 1]))"
proof -
  let ?k = "[''left_shoulder'' \<mapsto> point 300 200 1, ''right_shoulder'' \<mapsto> point 100 200 1]"
  have l: "?k ''left_shoulder'' = Some (point 300 200 1)"
    and r: "?k ''right_shoulder'' = Some (point 100 200 1)" by simp_all
  have c: "kp_y (point 300 200 1) = kp_y (point 100 200 1)
             \<and> kp_x (point 100 200 1) < kp_x (point 300 200 1)"
    by (simp add: point_def)
  from shoulders_mirrored(4) [OF l r c, of 400]
  have a: "shoulder_slope_degrees
             (analyze_shoulders (swap_mirror 400 ''left_shoulder'' ''right_shoulder'' ?k))
             = Some 180"
    and b: "shoulder_slope_degrees (analyze_shoulders ?k) = Some 180"
    by blast+
  show ?thesis by (simp only: a b) simp
qed

subsection \<open>Confidence values\<close>






subsection \<open>The view without a detected pose\<close>

lemma front_stage_no_pose:
  assumes "\<forall>img. photo_image front_photo = Some img \<longrightarrow> img = No_pose"
  shows "front_stage front_photo st = st"
proof (cases "photo_image front_photo")
  case None
  then show ?thesis by (cases st) (simp add: front_stage_def)
next
  case (Some img)
  with assms have "img = No_pose" by simp
  with Some show ?thesis
    by (cases st) (simp add: front_stage_def analyze_posture_from_image_def)
qed

lemma back_stage_no_pose:
  assumes "\<forall>img. photo_image back_photo = Some img \<longrightarrow> img = No_pose"
  shows "back_stage back_photo st = st"
proof (cases "photo_image back_photo")
  case None
  then show ?thesis by (cases st) (simp add: back_stage_def)
next
  case (Some img)
  with assms have "img = No_pose" by simp
  with Some show ?thesis
    by (cases st) (simp add: back_stage_def analyze_posture_from_image_def)
qed

lemma fallback_stage_new:
  "fallback_stage (new_posture_analysis, [], 0)
     = (new_posture_analysis\<lparr>pa_posture_score := Some 5\<rparr>, [fallback_recommendation], 1)"
  by (simp add: fallback_stage_def new_posture_analysis_def truthy_def)

text \<open>
  C3. When at least one photo row exists and pose estimation detects no pose in any photo
  that has a stored file, the view answers with a created analysis (no failure) whose
  posture score is exactly 5.0, together with exactly one recommendation row, the generic
  one of low priority, and reports the count 1.
\<close>

theorem post_no_detection:
  assumes "front_photo \<noteq> None \<or> back_photo \<noteq> None"
    and "\<forall>img. photo_image front_photo = Some img \<longrightarrow> img = No_pose"
    and "\<forall>img. photo_image back_photo = Some img \<longrightarrow> img = No_pose"
  shows "post front_photo back_photo
           = Created (new_posture_analysis\<lparr>pa_posture_score := Some 5.0\<rparr>)
               [fallback_recommendation] 1
         \<and> priority fallback_recommendation = ''low''"
proof -
  from assms(1) have "\<not> (front_photo = None \<and> back_photo = None)" by blast
  then have "post front_photo back_photo
               = (case fallback_stage (new_posture_analysis, [], 0) of
                    (pa, recs, n_recs) \<Rightarrow> Created pa recs n_recs)"
    by (simp only: post_def front_stage_no_pose [OF assms(2)] back_stage_no_pose [OF assms(3)]
          if_False)
  then show ?thesis by (simp add: fallback_stage_new fallback_recommendation_def)
qed

theorem post_no_detection_witness:
  "post (Some (PhotoUpload (Some No_pose))) None
     = Created (new_posture_analysis\<lparr>pa_posture_score := Some 5.0\<rparr>) [fallback_recommendation] 1
   \<and> stored_posture_score (post (Some (PhotoUpload (Some No_pose))) None) = Some 5
   \<and> length (created_recommendations (post (Some (PhotoUpload (Some No_pose))) None)) = 1"
proof -
  have a: "Some (PhotoUpload (Some No_pose)) \<noteq> None \<or> (None :: photo option) \<noteq> None" by simp
  have b: "\<forall>img. photo_image (Some (PhotoUpload (Some No_pose))) = Some img \<longrightarrow> img = No_pose"
    by (simp add: photo_image_def)
  have c: "\<forall>img. photo_image None = Some img \<longrightarrow> img = No_pose"
    by (simp add: photo_image_def)
  from post_no_detection [OF a b c] show ?thesis
    by (simp add: stored_posture_score_def created_recommendations_def)
qed

subsection \<open>The view with a front and a back photo\<close>

lemma fold_update_lookup:
  assumes "distinct (map fst xs)"
  shows "fold (\<lambda>(name, idx) kps. if P idx then kps(name \<mapsto> f idx) else kps) xs m k
           = (case map_of xs k of
                None \<Rightarrow> m k
              | Some idx \<Rightarrow> if P idx then Some (f idx) else m k)"
  using assms
proof (induction xs arbitrary: m)
  case Nil
  then show ?case by simp
next
  case (Cons x xs)
  obtain name idx where x: "x = (name, idx)" by (cases x)
  from Cons.prems x have d: "distinct (map fst xs)" and n: "name \<notin> fst ` set xs" by simp_all
  from n have mo: "map_of xs name = None" by (simp add: map_of_eq_None_iff)
  show ?case
  proof (cases "k = name")
    case True
    with x mo Cons.IH [OF d] show ?thesis by simp
  next
    case False
    with x Cons.IH [OF d] show ?thesis by (simp split: option.split)
  qed
qed

lemma key_points_distinct: "distinct (map fst key_points)"
  by (simp add: key_points_def)

lemma extract_keypoints_lookup:
  "extract_keypoints landmarks w h name
     = (case map_of key_points name of
          None \<Rightarrow> None
        | Some idx \<Rightarrow>
            if idx < length landmarks
            then Some \<lparr>kp_x = lm_x (landmarks ! idx) * real w,
                       kp_y = lm_y (landmarks ! idx) * real h,
                       kp_z = lm_z (landmarks ! idx),
                       visibility = lm_visibility (landmarks ! idx),
                       x_norm = lm_x (landmarks ! idx), y_norm = lm_y (landmarks ! idx)\<rparr>
            else None)"
  unfolding extract_keypoints_def Let_def
  by (simp only: fold_update_lookup [OF key_points_distinct])

lemma orelse_simps: "orelse None v = v" "orelse (Some a) v = Some a" "orelse w None = w"
  by (simp_all add: orelse_def split: option.split)

lemma update_dict_hip_slope:
  "hip_slope_degrees (update_dict a b) = orelse (hip_slope_degrees b) (hip_slope_degrees a)"
  by (simp add: update_dict_def)

lemma hip_slope_elsewhere:
  "hip_slope_degrees empty_analysis = None"
  "hip_slope_degrees (analyze_shoulders kps) = None"
  "hip_slope_degrees (analyze_head_position kps) = None"
  "hip_slope_degrees (analyze_knees kps) = None"
  by (simp_all add: empty_analysis_def analyze_shoulders_def analyze_head_position_def
        analyze_knees_def Let_def split: option.split)

lemma metrics_hip_slope:
  "hip_slope_degrees (calculate_posture_metrics kps) = hip_slope_degrees (analyze_hips kps)"
  unfolding calculate_posture_metrics_def Let_def
  by (simp add: update_dict_hip_slope hip_slope_elsewhere orelse_simps)

lemma calculate_posture_score_ge_1: "1 \<le> calculate_posture_score m"
  by (simp only: calculate_posture_score_raw max.cobounded1)

lemma metrics_posture_score:
  "\<exists>s. posture_score (calculate_posture_metrics kps) = Some s \<and> 1 \<le> s"
  unfolding calculate_posture_metrics_def Let_def
  using calculate_posture_score_ge_1 by simp

lemma analysis_result_pose:
  "analyze_posture_from_image (Pose L w h)
     = Inr ((calculate_posture_metrics (extract_keypoints L w h))
              \<lparr>keypoints := Some (extract_keypoints L w h), image_dimensions := Some (w, h),
               confidence := Some (calculate_overall_confidence L)\<rparr>)"
  by (simp add: analyze_posture_from_image_def Let_def)

lemma front_stage_hip_none:
  "pa_hip_slope_degrees (fst (front_stage fp (new_posture_analysis, [], 0))) = None"
  by (simp add: front_stage_def new_posture_analysis_def Let_def split: option.split sum.split)

lemma front_stage_score:
  assumes "photo_image fp = Some (Pose L w h)"
  shows "pa_posture_score (fst (front_stage fp (new_posture_analysis, [], 0)))
           = posture_score (calculate_posture_metrics (extract_keypoints L w h))"
  using assms by (simp add: front_stage_def analysis_result_pose Let_def)

lemma back_stage_hip:
  assumes "photo_image bp = Some (Pose L w h)" and "pa_hip_slope_degrees (fst st) = None"
  shows "pa_hip_slope_degrees (fst (back_stage bp st))
           = hip_slope_degrees (analyze_hips (extract_keypoints L w h))"
  using assms
  by (cases st)
     (simp add: back_stage_def analysis_result_pose Let_def truthy_def metrics_hip_slope)

lemma back_stage_score:
  assumes "photo_image bp = Some (Pose L w h)"
    and "pa_posture_score (fst st) = Some sf" and "sf \<noteq> 0"
    and "posture_score (calculate_posture_metrics (extract_keypoints L w h)) = Some sb"
  shows "pa_posture_score (fst (back_stage bp st)) = Some ((sf + sb) / 2)"
  using assms
  by (cases st) (simp add: back_stage_def analysis_result_pose Let_def truthy_def)

lemma fallback_stage_hip:
  "pa_hip_slope_degrees (fst (fallback_stage st)) = pa_hip_slope_degrees (fst st)"
  by (cases st) (simp add: fallback_stage_def)

lemma fallback_stage_score:
  assumes "pa_posture_score (fst st) = Some s" and "s \<noteq> 0"
  shows "pa_posture_score (fst (fallback_stage st)) = Some s"
  using assms by (cases st) (simp add: fallback_stage_def truthy_def)

lemma post_stored:
  assumes "photo_image bp = Some img"
  shows "stored_hip_slope (post fp bp)
           = pa_hip_slope_degrees
               (fst (fallback_stage (back_stage bp (front_stage fp (new_posture_analysis, [], 0)))))"
    and "stored_posture_score (post fp bp)
           = pa_posture_score
               (fst (fallback_stage (back_stage bp (front_stage fp (new_posture_analysis, [], 0)))))"
proof -
  from assms obtain ph where "bp = Some ph" by (cases bp) (simp_all add: photo_image_def)
  then have "\<not> (fp = None \<and> bp = None)" by simp
  then show "stored_hip_slope (post fp bp)
           = pa_hip_slope_degrees
               (fst (fallback_stage (back_stage bp (front_stage fp (new_posture_analysis, [], 0)))))"
    and "stored_posture_score (post fp bp)
           = pa_posture_score
               (fst (fallback_stage (back_stage bp (front_stage fp (new_posture_analysis, [], 0)))))"
    by (simp_all only: post_def if_False stored_hip_slope_def stored_posture_score_def
          split: prod.split) simp_all
qed

lemma post_hip_slope_is_back:
  assumes "photo_image bp = Some (Pose L w h)"
  shows "stored_hip_slope (post fp bp)
           = hip_slope_degrees (analyze_hips (extract_keypoints L w h))"
  by (simp only: post_stored(1) [OF assms] fallback_stage_hip
        back_stage_hip [OF assms front_stage_hip_none])

lemma post_score_is_mean:
  assumes f: "photo_image fp = Some (Pose Lf fw fh)" and b: "photo_image bp = Some (Pose Lb bw bh)"
  shows "\<exists>sf sb. posture_score (calculate_posture_metrics (extract_keypoints Lf fw fh)) = Some sf
           \<and> posture_score (calculate_posture_metrics (extract_keypoints Lb bw bh)) = Some sb
           \<and> stored_posture_score (post fp bp) = Some ((sf + sb) / 2)"
proof -
  from metrics_posture_score obtain sf
    where sf: "posture_score (calculate_posture_metrics (extract_keypoints Lf fw fh)) = Some sf"
      and sf1: "1 \<le> sf" by blast
  from metrics_posture_score obtain sb
    where sb: "posture_score (calculate_posture_metrics (extract_keypoints Lb bw bh)) = Some sb"
      and sb1: "1 \<le> sb" by blast
  from sf1 have sf0: "sf \<noteq> 0" by simp
  from sf1 sb1 have m0: "(sf + sb) / 2 \<noteq> 0" by simp
  have "pa_posture_score (fst (front_stage fp (new_posture_analysis, [], 0))) = Some sf"
    by (simp only: front_stage_score [OF f] sf)
  from back_stage_score [OF b this sf0 sb]
  have "pa_posture_score
          (fst (back_stage bp (front_stage fp (new_posture_analysis, [], 0))))
          = Some ((sf + sb) / 2)" .
  from fallback_stage_score [OF this m0] post_stored(2) [OF b]
  have "stored_posture_score (post fp bp) = Some ((sf + sb) / 2)" by simp
  with sf sb show ?thesis by blast
qed

lemma hip_landmarks_lookup:
  "extract_keypoints (hip_landmarks a b) 1000 1000 ''left_hip''
     = Some \<lparr>kp_x = 400, kp_y = a * 1000, kp_z = 0, visibility = 1, x_norm = 0.4, y_norm = a\<rparr>"
  "extract_keypoints (hip_landmarks a b) 1000 1000 ''right_hip''
     = Some \<lparr>kp_x = 600, kp_y = b * 1000, kp_z = 0, visibility = 1, x_norm = 0.6, y_norm = b\<rparr>"
  by (simp_all add: extract_keypoints_lookup key_points_def hip_landmarks_def nth_append)

lemma slope_degrees_antidiagonal: "0 < d \<Longrightarrow> slope_degrees (- d) d = - 45"
  using slope_degrees_minus [of d d] slope_degrees_diagonal [of d] by simp

lemma hip_landmarks_slope:
  "hip_slope_degrees (analyze_hips (extract_keypoints (hip_landmarks 0.5 0.7) 1000 1000)) = Some 45"
  "hip_slope_degrees (analyze_hips (extract_keypoints (hip_landmarks 0.7 0.5) 1000 1000))
     = Some (- 45)"
proof -
  have r: "py_round 45 2 = 45" using py_round_of_int [of 45 2] by simp
  have d: "slope_degrees 200 200 = 45" "slope_degrees (- 200) 200 = - 45"
    using slope_degrees_diagonal [of 200] slope_degrees_antidiagonal [of 200] by simp_all
  show "hip_slope_degrees (analyze_hips (extract_keypoints (hip_landmarks 0.5 0.7) 1000 1000))
          = Some 45"
    by (simp add: analyze_hips_slope [OF hip_landmarks_lookup] d r)
  show "hip_slope_degrees (analyze_hips (extract_keypoints (hip_landmarks 0.7 0.5) 1000 1000))
          = Some (- 45)"
    by (simp add: analyze_hips_slope [OF hip_landmarks_lookup] d r py_round_minus)
qed

text \<open>
  C4, at the failing input. The front view shows the hips with a slope of 45 degrees, the
  back view with a slope of -45 degrees. The front analysis does produce the hip-slope 45,
  yet the stored hip-slope is the -45 of the back view: the front branch of the view never
  stores its hip-slope, so the guard of the back branch always finds none.
\<close>

theorem post_hip_slope_front_ignored:
  "hip_slope_degrees
     (calculate_posture_metrics (extract_keypoints (hip_landmarks 0.5 0.7) 1000 1000)) = Some 45
   \<and> stored_hip_slope
       (post (Some (PhotoUpload (Some (Pose (hip_landmarks 0.5 0.7) 1000 1000))))
             (Some (PhotoUpload (Some (Pose (hip_landmarks 0.7 0.5) 1000 1000)))))
     = Some (- 45)"
proof -
  have b: "photo_image (Some (PhotoUpload (Some (Pose (hip_landmarks 0.7 0.5) 1000 1000))))
             = Some (Pose (hip_landmarks 0.7 0.5) 1000 1000)"
    by (simp add: photo_image_def)
  show ?thesis
    by (simp only: metrics_hip_slope hip_landmarks_slope post_hip_slope_is_back [OF b] simp_thms)
qed

subsection \<open>Recommendation rules\<close>

lemma generate_recommendations_closed_form:
  "generate_recommendations a =
     (let fired = (if flag (has_shoulder_imbalance a) then [shoulder_message a] else [])
                  @ (if flag (forward_head_posture a) then [forward_head_message] else [])
                  @ (if flag (has_hip_imbalance a) then [hip_message a] else [])
                  @ (if flag (has_knee_valgus a) then [knee_message a] else [])
      in if fired = [] then [normal_range_message] else fired)"
  by (simp add: generate_recommendations_def Let_def)

lemma generate_posture_recommendations_closed_form:
  "generate_posture_recommendations pa =
     (if model_has_shoulder_imbalance pa then [shoulder_recommendation pa] else [])
     @ (if model_has_hip_imbalance pa then [hip_recommendation pa] else [])
     @ (if model_has_knee_valgus pa then [knee_recommendation] else [])"
  by (simp add: generate_posture_recommendations_def Let_def)

lemma generate_recommendations_nonempty: "generate_recommendations a \<noteq> []"
  by (simp add: generate_recommendations_closed_form Let_def)

lemma generate_recommendations_length:
  "1 \<le> length (generate_recommendations a) \<and> length (generate_recommendations a) \<le> 4"
  by (simp add: generate_recommendations_closed_form Let_def)

lemma engine_fixed_fields:
  "category (shoulder_recommendation pa) = ''posture''"
  "priority (shoulder_recommendation pa) = ''high''"
  "title (shoulder_recommendation pa) = ''Shoulder imbalance correction''"
  "length (action_steps (shoulder_recommendation pa)) = 4"
  "category (hip_recommendation pa) = ''posture''"
  "priority (hip_recommendation pa) = ''medium''"
  "title (hip_recommendation pa) = ''Pelvic position correction''"
  "length (action_steps (hip_recommendation pa)) = 4"
  "category knee_recommendation = ''exercise''"
  "priority knee_recommendation = ''high''"
  "title knee_recommendation = ''Knee valgus correction''"
  "length (action_steps knee_recommendation) = 4"
  by (simp_all add: shoulder_recommendation_def hip_recommendation_def knee_recommendation_def)

lemma digit_chars: "char_of (53::nat) = CHR ''5''" "char_of (50::nat) = CHR ''2''"
  by (simp_all add: char_of_def bit_iff_odd)

lemma format_1f_example: "format_1f 5.25 = ''5.2''"
  by (simp add: format_1f_def round_half_even_def digit_chars)

lemma shoulder_description_example:
  "description (shoulder_recommendation (new_posture_analysis\<lparr>pa_shoulder_slope_degrees := Some (- 5.25)\<rparr>))
     = ''Detected shoulder tilt of 5.2'' @ degree_sign"
  by (simp add: shoulder_recommendation_def format_1f_def round_half_even_def digit_chars)

text \<open>
  C2, as amended. The message list of the posture service evaluates its four rules in the
  order shoulder imbalance, forward head, hip imbalance, knee valgus; each rule that fires
  contributes one message, and when none fires the list is the single generic message that
  the posture is within normal range, so the list is never empty and never longer than four.
  The structured recommendation engine evaluates three rules in the order shoulder
  imbalance, hip imbalance, knee valgus, with no forward-head rule; each rule that fires
  contributes one record with its fixed category, priority, title and four action steps,
  and when none fires the list is empty.
\<close>

theorem recommendation_rules:
  "generate_recommendations a =
     (let fired = (if flag (has_shoulder_imbalance a) then [shoulder_message a] else [])
                  @ (if flag (forward_head_posture a) then [forward_head_message] else [])
                  @ (if flag (has_hip_imbalance a) then [hip_message a] else [])
                  @ (if flag (has_knee_valgus a) then [knee_message a] else [])
      in if fired = [] then [normal_range_message] else fired)
   \<and> generate_recommendations a \<noteq> []
   \<and> length (generate_recommendations a) \<le> 4
   \<and> generate_posture_recommendations pa =
       (if model_has_shoulder_imbalance pa then [shoulder_recommendation pa] else [])
       @ (if model_has_hip_imbalance pa then [hip_recommendation pa] else [])
       @ (if model_has_knee_valgus pa then [knee_recommendation] else [])
   \<and> category (shoulder_recommendation pa) = ''posture''
   \<and> priority (shoulder_recommendation pa) = ''high''
   \<and> category (hip_recommendation pa) = ''posture''
   \<and> priority (hip_recommendation pa) = ''medium''
   \<and> category knee_recommendation = ''exercise''
   \<and> priority knee_recommendation = ''high''"
  using generate_recommendations_closed_form [of a] generate_recommendations_nonempty [of a]
    generate_recommendations_length [of a] generate_posture_recommendations_closed_form [of pa]
    engine_fixed_fields(1,2,5,6) [of pa] engine_fixed_fields(9,10)
  by blast

text \<open>
  C2 as stated fails on the recommendation engine: for a stored analysis with no metric
  it returns the empty list, and a forward-head flag never produces a record; the message
  list of the service returns only the generic message for the same condition, a plain
  string without category or priority.
\<close>

theorem engine_empty_counterexample:
  "generate_posture_recommendations new_posture_analysis = []
   \<and> generate_recommendations empty_analysis = [normal_range_message]
   \<and> generate_recommendations (empty_analysis\<lparr>forward_head_posture := Some True\<rparr>)
       = [forward_head_message]"
  by (simp add: generate_posture_recommendations_closed_form generate_recommendations_closed_form
        new_posture_analysis_def empty_analysis_def model_has_shoulder_imbalance_def
        model_has_hip_imbalance_def model_has_knee_valgus_def truthy_def flag_def)

subsection \<open>The knee valgus indicator of a computed analysis is never negative\<close>

text \<open>
  The posture score theorem asks for a knee valgus indicator that is not negative. Every
  metrics record that the analysis itself computes meets this condition.
\<close>

lemma py_round_nonneg: "0 \<le> v \<Longrightarrow> 0 \<le> py_round v n"
  using py_round_mono [of 0 v n] by (simp add: py_round_0)

lemma analyze_knees_valgus_nonneg:
  "case knee_valgus_angle (analyze_knees kps) of None \<Rightarrow> True | Some v \<Rightarrow> 0 \<le> v"
  by (simp add: analyze_knees_def Let_def empty_analysis_def py_round_nonneg split: option.split)

lemma update_dict_knee_valgus:
  "knee_valgus_angle (update_dict a b) = orelse (knee_valgus_angle b) (knee_valgus_angle a)"
  by (simp add: update_dict_def)

lemma knee_valgus_elsewhere:
  "knee_valgus_angle empty_analysis = None"
  "knee_valgus_angle (analyze_shoulders kps) = None"
  "knee_valgus_angle (analyze_head_position kps) = None"
  "knee_valgus_angle (analyze_hips kps) = None"
  by (simp_all add: empty_analysis_def analyze_shoulders_def analyze_head_position_def
        analyze_hips_def Let_def split: option.split)

lemma metrics_knee_valgus:
  "knee_valgus_angle (calculate_posture_metrics kps) = knee_valgus_angle (analyze_knees kps)"
  unfolding calculate_posture_metrics_def Let_def
  by (simp add: update_dict_knee_valgus knee_valgus_elsewhere orelse_simps)

lemma metrics_valgus_nonneg:
  "case knee_valgus_angle (calculate_posture_metrics kps) of None \<Rightarrow> True | Some v \<Rightarrow> 0 \<le> v"
  by (simp only: metrics_knee_valgus analyze_knees_valgus_nonneg)

end
